theory Spec2Isabelle
  imports Complex_Main "HOL-Library.Sublist" "HOL-Library.List_Lexorder" "HOL-Library.Char_ord"
begin

chapter \<open>The Jetson file-transfer deployment plugin\<close>

text \<open>
  A shallow embedding of \<^verbatim>\<open>config.py\<close>, \<^verbatim>\<open>ssh_manager.py\<close>,
  \<^verbatim>\<open>simple_package_builder.py\<close> and \<^verbatim>\<open>simple_plugin.py\<close>.
  A Python \<^verbatim>\<open>str\<close> is a \<^typ>\<open>string\<close> holding its UTF-8 encoding, so an ASCII
  character is one \<^typ>\<open>char\<close>; \<^verbatim>\<open>bytes\<close> are a \<^typ>\<open>string\<close> too, and
  \<^verbatim>\<open>decode('utf-8')\<close> is the validity check that separates them.
  Paths follow \<^verbatim>\<open>PurePosixPath\<close>. Logging is left out: it has no effect on
  what a function returns or raises.
\<close>

section \<open>Python strings\<close>

definition sq :: string where
  "sq = [CHR 0x27]"

definition dq :: string where
  "dq = [CHR 0x22]"

definition nl :: string where
  "nl = [CHR 0x0A]"

text \<open>The characters \<^verbatim>\<open>str.strip()\<close> removes (\<^verbatim>\<open>str.isspace\<close>), in UTF-8.\<close>

definition ws_encodings :: "string list" where
  "ws_encodings =
    [[CHR 0x09], [CHR 0x0A], [CHR 0x0B], [CHR 0x0C], [CHR 0x0D],
     [CHR 0x1C], [CHR 0x1D], [CHR 0x1E], [CHR 0x1F], [CHR 0x20],
     [CHR 0xC2, CHR 0x85], [CHR 0xC2, CHR 0xA0], [CHR 0xE1, CHR 0x9A, CHR 0x80],
     [CHR 0xE2, CHR 0x80, CHR 0x80], [CHR 0xE2, CHR 0x80, CHR 0x81],
     [CHR 0xE2, CHR 0x80, CHR 0x82], [CHR 0xE2, CHR 0x80, CHR 0x83],
     [CHR 0xE2, CHR 0x80, CHR 0x84], [CHR 0xE2, CHR 0x80, CHR 0x85],
     [CHR 0xE2, CHR 0x80, CHR 0x86], [CHR 0xE2, CHR 0x80, CHR 0x87],
     [CHR 0xE2, CHR 0x80, CHR 0x88], [CHR 0xE2, CHR 0x80, CHR 0x89],
     [CHR 0xE2, CHR 0x80, CHR 0x8A], [CHR 0xE2, CHR 0x80, CHR 0xA8],
     [CHR 0xE2, CHR 0x80, CHR 0xA9], [CHR 0xE2, CHR 0x80, CHR 0xAF],
     [CHR 0xE2, CHR 0x81, CHR 0x9F], [CHR 0xE3, CHR 0x80, CHR 0x80]]"

definition ws_head :: "string \<Rightarrow> nat" where
  "ws_head s = (case find (\<lambda>e. prefix e s) ws_encodings of None \<Rightarrow> 0 | Some e \<Rightarrow> length e)"

definition ws_tail :: "string \<Rightarrow> nat" where
  "ws_tail s = (case find (\<lambda>e. suffix e s) ws_encodings of None \<Rightarrow> 0 | Some e \<Rightarrow> length e)"

function lstrip :: "string \<Rightarrow> string" where
  "lstrip s = (if s = [] \<or> ws_head s = 0 then s else lstrip (drop (ws_head s) s))"
  by pat_completeness auto
termination
  by (relation "measure length") auto

function rstrip :: "string \<Rightarrow> string" where
  "rstrip s = (if s = [] \<or> ws_tail s = 0 then s else rstrip (take (length s - ws_tail s) s))"
  by pat_completeness auto
termination
  by (relation "measure length") auto

declare lstrip.simps [simp del] rstrip.simps [simp del]

definition strip :: "string \<Rightarrow> string" where
  "strip s = rstrip (lstrip s)"

text \<open>\<^verbatim>\<open>str.split(sep)\<close> for a one-character separator: never an empty list.\<close>

fun split :: "char \<Rightarrow> string \<Rightarrow> string list" where
  "split sep [] = [[]]"
| "split sep (c # cs) =
     (if c = sep then [] # split sep cs
      else (case split sep cs of [] \<Rightarrow> [[c]] | x # xs \<Rightarrow> (c # x) # xs))"

fun join :: "string \<Rightarrow> string list \<Rightarrow> string" where
  "join sep [] = []"
| "join sep [x] = x"
| "join sep (x # y # ys) = x @ sep @ join sep (y # ys)"

text \<open>
  \<^verbatim>\<open>int(s)\<close>: surrounding whitespace, one optional sign, decimal digits with single
  underscores between them, and \<^verbatim>\<open>ValueError\<close> (\<open>None\<close>) for anything else. The
  decimal digits are the ASCII ones.
\<close>

definition is_digit :: "char \<Rightarrow> bool" where
  "is_digit c \<longleftrightarrow> CHR ''0'' \<le> c \<and> c \<le> CHR ''9''"

definition digit_val :: "char \<Rightarrow> nat" where
  "digit_val c = of_char c - 48"

fun digits_acc :: "string \<Rightarrow> nat \<Rightarrow> bool \<Rightarrow> nat option" where
  "digits_acc [] acc seen = (if seen then Some acc else None)"
| "digits_acc (c # cs) acc seen =
     (if is_digit c then digits_acc cs (10 * acc + digit_val c) True
      else if c = CHR ''_'' \<and> seen \<and> (case cs of [] \<Rightarrow> False | d # _ \<Rightarrow> is_digit d)
        then digits_acc cs acc False
      else None)"

definition py_int :: "string \<Rightarrow> int option" where
  "py_int s =
     (case strip s of
        [] \<Rightarrow> None
      | c # cs \<Rightarrow>
          if c = CHR ''-'' then map_option (\<lambda>n. - int n) (digits_acc cs 0 False)
          else if c = CHR ''+'' then map_option int (digits_acc cs 0 False)
          else map_option int (digits_acc (c # cs) 0 False))"

text \<open>\<^verbatim>\<open>bytes.decode('utf-8')\<close> accepts exactly the well-formed UTF-8 sequences.\<close>

definition cont :: "char \<Rightarrow> bool" where
  "cont c \<longleftrightarrow> CHR 0x80 \<le> c \<and> c \<le> CHR 0xBF"

fun utf8_valid :: "string \<Rightarrow> bool" where
  "utf8_valid [] = True"
| "utf8_valid (b # bs) =
     (if b < CHR 0x80 then utf8_valid bs
      else if CHR 0xC2 \<le> b \<and> b \<le> CHR 0xDF then
        (case bs of c1 # r \<Rightarrow> cont c1 \<and> utf8_valid r | _ \<Rightarrow> False)
      else if b = CHR 0xE0 then
        (case bs of c1 # c2 # r \<Rightarrow> CHR 0xA0 \<le> c1 \<and> c1 \<le> CHR 0xBF \<and> cont c2 \<and> utf8_valid r
         | _ \<Rightarrow> False)
      else if (CHR 0xE1 \<le> b \<and> b \<le> CHR 0xEC) \<or> b = CHR 0xEE \<or> b = CHR 0xEF then
        (case bs of c1 # c2 # r \<Rightarrow> cont c1 \<and> cont c2 \<and> utf8_valid r | _ \<Rightarrow> False)
      else if b = CHR 0xED then
        (case bs of c1 # c2 # r \<Rightarrow> CHR 0x80 \<le> c1 \<and> c1 \<le> CHR 0x9F \<and> cont c2 \<and> utf8_valid r
         | _ \<Rightarrow> False)
      else if b = CHR 0xF0 then
        (case bs of c1 # c2 # c3 # r \<Rightarrow>
           CHR 0x90 \<le> c1 \<and> c1 \<le> CHR 0xBF \<and> cont c2 \<and> cont c3 \<and> utf8_valid r
         | _ \<Rightarrow> False)
      else if CHR 0xF1 \<le> b \<and> b \<le> CHR 0xF3 then
        (case bs of c1 # c2 # c3 # r \<Rightarrow> cont c1 \<and> cont c2 \<and> cont c3 \<and> utf8_valid r
         | _ \<Rightarrow> False)
      else if b = CHR 0xF4 then
        (case bs of c1 # c2 # c3 # r \<Rightarrow>
           CHR 0x80 \<le> c1 \<and> c1 \<le> CHR 0x8F \<and> cont c2 \<and> cont c3 \<and> utf8_valid r
         | _ \<Rightarrow> False)
      else False)"

text \<open>
  \<^verbatim>\<open>repr\<close> of a string, an integer and \<^verbatim>\<open>None\<close>, as \<^verbatim>\<open>str(dict)\<close> prints
  them. The quote is the double one only when the text has a single quote and no
  double one; control characters are escaped; a character beyond ASCII is taken to
  be printable and is copied.
\<close>

definition hex_digit :: "nat \<Rightarrow> char" where
  "hex_digit n = (if n < 10 then char_of (48 + n) else char_of (87 + n))"

definition repr_char :: "char \<Rightarrow> char \<Rightarrow> string" where
  "repr_char q c =
     (if c = q \<or> c = CHR 0x5C then [CHR 0x5C, c]
      else if c = CHR 0x09 then [CHR 0x5C, CHR ''t'']
      else if c = CHR 0x0A then [CHR 0x5C, CHR ''n'']
      else if c = CHR 0x0D then [CHR 0x5C, CHR ''r'']
      else if c < CHR 0x20 \<or> c = CHR 0x7F then
        [CHR 0x5C, CHR ''x'', hex_digit (of_char c div 16), hex_digit (of_char c mod 16)]
      else [c])"

definition repr_str :: "string \<Rightarrow> string" where
  "repr_str s =
     (let q = (if CHR 0x27 \<in> set s \<and> CHR 0x22 \<notin> set s then CHR 0x22 else CHR 0x27)
      in [q] @ concat (map (repr_char q) s) @ [q])"

function dec_nat :: "nat \<Rightarrow> string" where
  "dec_nat n = (if n < 10 then [char_of (48 + n)] else dec_nat (n div 10) @ [char_of (48 + n mod 10)])"
  by pat_completeness auto
termination
  by (relation "measure id") auto

declare dec_nat.simps [simp del]

definition repr_int :: "int \<Rightarrow> string" where
  "repr_int i = (if i < 0 then ''-'' @ dec_nat (nat (- i)) else dec_nat (nat i))"

section \<open>Paths\<close>

text \<open>
  \<^verbatim>\<open>PurePosixPath\<close>: the root is \<^verbatim>\<open>/\<close>, or \<^verbatim>\<open>//\<close> for exactly two leading
  slashes; empty components and \<^verbatim>\<open>.\<close> are dropped.
\<close>

definition path_root :: "string \<Rightarrow> string" where
  "path_root s =
     (if take 1 s \<noteq> ''/'' then []
      else if take 2 s = ''//'' \<and> take 3 s \<noteq> ''///'' then ''//''
      else ''/'')"

definition path_parts :: "string \<Rightarrow> string list" where
  "path_parts s = filter (\<lambda>p. p \<noteq> [] \<and> p \<noteq> ''.'') (split CHR ''/'' s)"

definition path_str :: "string \<Rightarrow> string list \<Rightarrow> string" where
  "path_str rt parts = (if rt = [] \<and> parts = [] then ''.'' else rt @ join ''/'' parts)"

definition path_name :: "string \<Rightarrow> string" where
  "path_name s = (case path_parts s of [] \<Rightarrow> [] | p # ps \<Rightarrow> last (p # ps))"

definition path_parent :: "string \<Rightarrow> string" where
  "path_parent s = path_str (path_root s) (butlast (path_parts s))"

definition path_join :: "string \<Rightarrow> string \<Rightarrow> string" where
  "path_join a b =
     (if take 1 b = ''/'' then path_str (path_root b) (path_parts b)
      else path_str (path_root a) (path_parts a @ path_parts b))"

section \<open>Exceptions\<close>

text \<open>
  An exception is its class and the text \<^verbatim>\<open>str(e)\<close> gives. Every class here
  derives from \<^verbatim>\<open>Exception\<close>, so \<^verbatim>\<open>except Exception\<close> and a bare
  \<^verbatim>\<open>except\<close> catch all of them. \<open>Other\<close> names a class raised inside a library.
\<close>

datatype exn_kind =
    Exception | ConnectionError | MlflowException | ValueError | KeyError
  | FileNotFoundError | UnicodeDecodeError | Other string

datatype exn = Exn (exn_kind: exn_kind) (exn_str: string)

section \<open>The configuration record (\<^verbatim>\<open>config.py\<close>)\<close>

record JetsonConfig =
  device_ip :: string
  username :: string
  ssh_key_path :: "string option"
  password :: "string option"
  deployment_base_path :: string
  timeout :: int
  max_retries :: int

text \<open>Truth value of an \<^verbatim>\<open>Optional[str]\<close>: \<^verbatim>\<open>None\<close> and the empty text are false.\<close>

definition truthy :: "string option \<Rightarrow> bool" where
  "truthy v = (case v of None \<Rightarrow> False | Some s \<Rightarrow> s \<noteq> [])"

datatype pyval = PStr string | PInt int | PNone

definition opt_val :: "string option \<Rightarrow> pyval" where
  "opt_val v = (case v of None \<Rightarrow> PNone | Some s \<Rightarrow> PStr s)"

definition val_truthy :: "pyval \<Rightarrow> bool" where
  "val_truthy v = (case v of PStr s \<Rightarrow> s \<noteq> [] | PInt i \<Rightarrow> i \<noteq> 0 | PNone \<Rightarrow> False)"

definition repr_val :: "pyval \<Rightarrow> string" where
  "repr_val v = (case v of PStr s \<Rightarrow> repr_str s | PInt i \<Rightarrow> repr_int i | PNone \<Rightarrow> ''None'')"

text \<open>A \<^verbatim>\<open>dict\<close> with text keys, in insertion order.\<close>

type_synonym pydict = "(string \<times> pyval) list"

definition repr_dict :: "pydict \<Rightarrow> string" where
  "repr_dict d = ''{'' @ join '', '' (map (\<lambda>(k, v). repr_str k @ '': '' @ repr_val v) d) @ ''}''"

text \<open>Reading a key; every key read below is one that \<open>to_dict\<close> wrote.\<close>

definition dict_get :: "pydict \<Rightarrow> string \<Rightarrow> pyval" where
  "dict_get d k = (case map_of d k of None \<Rightarrow> PNone | Some v \<Rightarrow> v)"

definition dict_set :: "('k \<times> 'v) list \<Rightarrow> 'k \<Rightarrow> 'v \<Rightarrow> ('k \<times> 'v) list" where
  "dict_set d k v = (if k \<in> fst ` set d then map (\<lambda>(k', v'). if k' = k then (k', v) else (k', v')) d
                     else d @ [(k, v)])"

definition to_dict :: "JetsonConfig \<Rightarrow> pydict" where
  "to_dict self =
     [(''device_ip'', PStr (device_ip self)),
      (''username'', PStr (username self)),
      (''ssh_key_path'', opt_val (ssh_key_path self)),
      (''password'', opt_val (password self)),
      (''deployment_base_path'', PStr (deployment_base_path self)),
      (''timeout'', PInt (timeout self)),
      (''max_retries'', PInt (max_retries self))]"

text \<open>
  \<^verbatim>\<open>__str__\<close>. The second component is the record after the call: the mask is
  written into the dictionary \<^verbatim>\<open>to_dict\<close> built, never into \<^verbatim>\<open>self\<close>.
\<close>

definition hidden :: string where
  "hidden = ''***hidden***''"

definition masked_dict :: "JetsonConfig \<Rightarrow> pydict" where
  "masked_dict self =
     (let config_dict = to_dict self
      in if val_truthy (dict_get config_dict ''password'')
         then dict_set config_dict ''password'' (PStr hidden)
         else config_dict)"

definition config_str :: "JetsonConfig \<Rightarrow> string \<times> JetsonConfig" where
  "config_str self = (''JetsonConfig('' @ repr_dict (masked_dict self) @ '')'', self)"

section \<open>The environment\<close>

text \<open>
  What the program asks of its libraries (\<^verbatim>\<open>pathlib\<close>, \<^verbatim>\<open>shutil\<close>,
  \<^verbatim>\<open>tempfile\<close>, \<^verbatim>\<open>tarfile\<close>, \<^verbatim>\<open>mlflow\<close>, \<^verbatim>\<open>paramiko\<close>,
  \<^verbatim>\<open>scp\<close>) is a record of operations on a world \<open>'w\<close> that the theorems leave
  arbitrary: the local disk, the clock, the network and the device. A request that
  can raise returns the exception; \<open>'c\<close> is the type of \<^verbatim>\<open>SSHClient\<close> objects.
  A channel is what \<^verbatim>\<open>exec_command\<close> hands back: the exit status and the two
  streams, each of which may raise when it is read.
\<close>

datatype credential = KeyFile string | Password "string option"

record channel =
  recv_exit_status :: "exn + int"
  read_stdout :: "exn + string"
  read_stderr :: "exn + string"

record ('c, 'w) driver =
  expanduser :: "string \<Rightarrow> string"
  path_exists :: "string \<Rightarrow> 'w \<Rightarrow> bool"
  is_file :: "string \<Rightarrow> 'w \<Rightarrow> bool"
  is_dir :: "string \<Rightarrow> 'w \<Rightarrow> bool"
  now_isoformat :: "'w \<Rightarrow> string"
  now_strftime :: "'w \<Rightarrow> string"
  mkdtemp :: "string \<Rightarrow> 'w \<Rightarrow> (exn + string) \<times> 'w"
  rmtree :: "string \<Rightarrow> 'w \<Rightarrow> exn option \<times> 'w"
  copy2 :: "string \<Rightarrow> string \<Rightarrow> 'w \<Rightarrow> exn option \<times> 'w"
  copytree :: "string \<Rightarrow> string \<Rightarrow> 'w \<Rightarrow> (exn + string list) \<times> 'w"
  make_tar :: "string \<Rightarrow> string \<Rightarrow> 'w \<Rightarrow> (exn + string) \<times> 'w"
  getsize :: "string \<Rightarrow> 'w \<Rightarrow> exn + int"
  unicode_error :: "string \<Rightarrow> string"
  download_artifact :: "string \<Rightarrow> string \<Rightarrow> 'w \<Rightarrow> (exn + string) \<times> 'w"
  new_client :: "'w \<Rightarrow> 'c \<times> 'w"
  ssh_connect :: "'c \<Rightarrow> string \<Rightarrow> string \<Rightarrow> credential \<Rightarrow> int \<Rightarrow> 'w \<Rightarrow> exn option \<times> 'w"
  exec_command :: "'c \<Rightarrow> string \<Rightarrow> int \<Rightarrow> 'w \<Rightarrow> (exn + channel) \<times> 'w"
  ssh_close :: "'c \<Rightarrow> 'w \<Rightarrow> 'w"
  scp_put :: "'c \<Rightarrow> string \<Rightarrow> string \<Rightarrow> 'w \<Rightarrow> exn option \<times> 'w"

text \<open>
  \<open>expanduser p\<close> is \<^verbatim>\<open>str(Path(p).expanduser())\<close>; \<open>mkdtemp\<close> makes a fresh
  directory (\<^verbatim>\<open>tempfile.mkdtemp\<close>, \<^verbatim>\<open>TemporaryDirectory\<close>); \<open>copytree\<close>
  returns the files it copied, relative to the tree; \<open>make_tar dir suffix\<close> is
  \<^verbatim>\<open>mkstemp\<close>, \<^verbatim>\<open>tarfile.open\<close>, \<^verbatim>\<open>tar.add\<close> and the size that is logged;
  \<open>unicode_error\<close> is the text of a \<^verbatim>\<open>UnicodeDecodeError\<close>;
  \<open>download_artifact uri dir\<close> is \<^verbatim>\<open>_download_artifact_from_uri\<close>;
  \<open>new_client\<close> is \<^verbatim>\<open>paramiko.SSHClient()\<close> with its host-key policy;
  \<open>scp_put c local remote\<close> is the \<^verbatim>\<open>SCPClient\<close> on \<open>c\<close>'s transport, its
  \<^verbatim>\<open>put\<close> and its closing.
\<close>

section \<open>Validation (\<^verbatim>\<open>JetsonConfig.validate\<close>)\<close>

fun check_parts :: "string \<Rightarrow> string list \<Rightarrow> exn + unit" where
  "check_parts ip [] = Inr ()"
| "check_parts ip (part # parts) =
     (case py_int part of
        None \<Rightarrow> Inl (Exn ValueError (''invalid literal for int() with base 10: '' @ repr_str part))
      | Some int_part \<Rightarrow>
          if \<not> (0 \<le> int_part \<and> int_part \<le> 255)
          then Inl (Exn ValueError (''Invalid IP address: '' @ ip))
          else check_parts ip parts)"

text \<open>The \<^verbatim>\<open>except ValueError: pass\<close> around the loop takes both of its raises.\<close>

definition ip_format_check :: "string \<Rightarrow> exn + unit" where
  "ip_format_check ip =
     (let ip_parts = split CHR ''.'' ip
      in if length ip_parts = 4
         then (case check_parts ip ip_parts of
                 Inl e \<Rightarrow> (if exn_kind e = ValueError then Inr () else Inl e)
               | Inr u \<Rightarrow> Inr ())
         else Inr ())"

definition default_key_paths :: "string list" where
  "default_key_paths = [''~/.ssh/jetson_key'', ''~/.ssh/id_rsa'', ''~/.ssh/id_ed25519'']"

definition no_credential_message :: string where
  "no_credential_message =
     ''Either ssh_key_path or password must be provided.'' @ nl @
     ''No default SSH key found in ~/.ssh/'' @ nl @
     ''Please either:'' @ nl @
     ''  1. Set ssh_key_path in config'' @ nl @
     ''  2. Set password in config'' @ nl @
     ''  3. Create SSH key: ssh-keygen -t rsa -f ~/.ssh/jetson_key''"

definition find_default_key :: "('c, 'w) driver \<Rightarrow> 'w \<Rightarrow> JetsonConfig \<Rightarrow> exn + JetsonConfig" where
  "find_default_key drv w self =
     (if \<not> truthy (ssh_key_path self) \<and> \<not> truthy (password self)
      then (let self' =
                  (case find (\<lambda>key_path. path_exists drv (expanduser drv key_path) w)
                          default_key_paths of
                     Some key_path \<Rightarrow> self\<lparr>ssh_key_path := Some (expanduser drv key_path)\<rparr>
                   | None \<Rightarrow> self)
            in if \<not> truthy (ssh_key_path self')
               then Inl (Exn ValueError no_credential_message)
               else Inr self')
      else Inr self)"

definition check_key_exists :: "('c, 'w) driver \<Rightarrow> 'w \<Rightarrow> JetsonConfig \<Rightarrow> exn + unit" where
  "check_key_exists drv w self =
     (case ssh_key_path self of
        None \<Rightarrow> Inr ()
      | Some p \<Rightarrow>
          if p \<noteq> [] \<and> \<not> path_exists drv (expanduser drv p) w
          then Inl (Exn FileNotFoundError
                 (''SSH key not found: '' @ p @ nl @
                  ''Expanded path: '' @ expanduser drv p @ nl @
                  ''Please create SSH key or update ssh_key_path in config''))
          else Inr ())"

definition validate :: "('c, 'w) driver \<Rightarrow> 'w \<Rightarrow> JetsonConfig \<Rightarrow> exn + JetsonConfig" where
  "validate drv w self =
     (if device_ip self = [] then Inl (Exn ValueError ''device_ip is required'')
      else case ip_format_check (device_ip self) of
        Inl e \<Rightarrow> Inl e
      | Inr _ \<Rightarrow>
         (case find_default_key drv w self of
            Inl e \<Rightarrow> Inl e
          | Inr self' \<Rightarrow>
             (case check_key_exists drv w self' of
                Inl e \<Rightarrow> Inl e
              | Inr _ \<Rightarrow>
                  if timeout self' \<le> 0 then Inl (Exn ValueError ''timeout must be positive'')
                  else if max_retries self' < 0
                    then Inl (Exn ValueError ''max_retries must be non-negative'')
                  else Inr self')))"

section \<open>Programs with state and exceptions\<close>

text \<open>
  A method is a function from the state before the call to what it returns or
  raises and the state after it. A raise keeps the state reached so far: Python
  undoes nothing.
\<close>

type_synonym ('s, 'a) prog = "'s \<Rightarrow> (exn + 'a) \<times> 's"

definition ret :: "'a \<Rightarrow> ('s, 'a) prog" where
  "ret a = (\<lambda>s. (Inr a, s))"

definition raise :: "exn \<Rightarrow> ('s, 'a) prog" where
  "raise e = (\<lambda>s. (Inl e, s))"

definition then_do :: "('s, 'a) prog \<Rightarrow> ('a \<Rightarrow> ('s, 'b) prog) \<Rightarrow> ('s, 'b) prog" where
  "then_do m f = (\<lambda>s. case m s of (Inl e, s') \<Rightarrow> (Inl e, s') | (Inr a, s') \<Rightarrow> f a s')"

definition try_except :: "('s, 'a) prog \<Rightarrow> (exn \<Rightarrow> ('s, 'a) prog) \<Rightarrow> ('s, 'a) prog" where
  "try_except m h = (\<lambda>s. case m s of (Inl e, s') \<Rightarrow> h e s' | (Inr a, s') \<Rightarrow> (Inr a, s'))"

definition lift :: "exn + 'a \<Rightarrow> ('s, 'a) prog" where
  "lift r = (\<lambda>s. (r, s))"

section \<open>The connection manager (\<^verbatim>\<open>ssh_manager.py\<close>)\<close>

text \<open>The state of an \<^verbatim>\<open>SSHManager\<close> (its \<^verbatim>\<open>_ssh_client\<close>) and of the world.\<close>

record ('c, 'w) state =
  ssh_client :: "'c option"
  world :: 'w

text \<open>Requests to the environment, on the world of the state.\<close>

definition ask :: "('w \<Rightarrow> (exn + 'a) \<times> 'w) \<Rightarrow> (('c, 'w) state, 'a) prog" where
  "ask f = (\<lambda>st. case f (world st) of (r, w) \<Rightarrow> (r, st\<lparr>world := w\<rparr>))"

definition ask_unit :: "('w \<Rightarrow> exn option \<times> 'w) \<Rightarrow> (('c, 'w) state, unit) prog" where
  "ask_unit f =
     (\<lambda>st. case f (world st) of
        (None, w) \<Rightarrow> (Inr (), st\<lparr>world := w\<rparr>)
      | (Some e, w) \<Rightarrow> (Inl e, st\<lparr>world := w\<rparr>))"

record command_result =
  exit_status :: int
  stdout :: string
  stderr :: string
  command :: string
  success :: bool

definition probe_command :: string where
  "probe_command = ''echo '' @ dq @ ''test'' @ dq"

definition credential_of :: "JetsonConfig \<Rightarrow> credential" where
  "credential_of cfg =
     (case ssh_key_path cfg of
        Some k \<Rightarrow> if k \<noteq> [] then KeyFile k else Password (password cfg)
      | None \<Rightarrow> Password (password cfg))"

text \<open>
  The second half of \<^verbatim>\<open>connect\<close>: a new client is stored in \<^verbatim>\<open>_ssh_client\<close>
  before it connects, and stays there when connecting raises.
\<close>

definition open_session :: "('c, 'w) driver \<Rightarrow> JetsonConfig \<Rightarrow> (('c, 'w) state, 'c) prog" where
  "open_session drv cfg st =
     (case new_client drv (world st) of
        (c, w1) \<Rightarrow>
          (case ssh_connect drv c (device_ip cfg) (username cfg) (credential_of cfg) (timeout cfg) w1 of
             (None, w2) \<Rightarrow> (Inr c, st\<lparr>ssh_client := Some c, world := w2\<rparr>)
           | (Some e, w2) \<Rightarrow>
               (Inl (Exn ConnectionError (''SSH connection failed: '' @ exn_str e)),
                st\<lparr>ssh_client := Some c, world := w2\<rparr>)))"

definition connect :: "('c, 'w) driver \<Rightarrow> JetsonConfig \<Rightarrow> (('c, 'w) state, 'c) prog" where
  "connect drv cfg st =
     (case ssh_client st of
        None \<Rightarrow> open_session drv cfg st
      | Some c \<Rightarrow>
          (case exec_command drv c probe_command 5 (world st) of
             (Inr ch, w1) \<Rightarrow> (Inr c, st\<lparr>world := w1\<rparr>)
           | (Inl e, w1) \<Rightarrow>
               open_session drv cfg (st\<lparr>ssh_client := None, world := ssh_close drv c w1\<rparr>)))"

text \<open>\<^verbatim>\<open>stdout.read().decode('utf-8').strip()\<close>.\<close>

definition read_text :: "('c, 'w) driver \<Rightarrow> exn + string \<Rightarrow> exn + string" where
  "read_text drv stream =
     (case stream of
        Inl e \<Rightarrow> Inl e
      | Inr bytes \<Rightarrow>
          if utf8_valid bytes then Inr (strip bytes)
          else Inl (Exn UnicodeDecodeError (unicode_error drv bytes)))"

definition read_result :: "('c, 'w) driver \<Rightarrow> string \<Rightarrow> channel \<Rightarrow> exn + command_result" where
  "read_result drv cmd ch =
     (case recv_exit_status ch of
        Inl e \<Rightarrow> Inl e
      | Inr status \<Rightarrow>
         (case read_text drv (read_stdout ch) of
            Inl e \<Rightarrow> Inl e
          | Inr stdout_text \<Rightarrow>
             (case read_text drv (read_stderr ch) of
                Inl e \<Rightarrow> Inl e
              | Inr stderr_text \<Rightarrow>
                  Inr \<lparr>exit_status = status, stdout = stdout_text, stderr = stderr_text,
                       command = cmd, success = (status = 0)\<rparr>)))"

definition command_failure :: "string \<Rightarrow> exn \<Rightarrow> exn" where
  "command_failure cmd e =
     Exn Exception (''Failed to execute command '' @ sq @ cmd @ sq @ '': '' @ exn_str e)"

text \<open>
  \<^verbatim>\<open>execute_command\<close>: \<^verbatim>\<open>timeout or self.config.timeout\<close> replaces \<^verbatim>\<open>None\<close>
  and \<^verbatim>\<open>0\<close>; \<^verbatim>\<open>connect()\<close> stands before the \<^verbatim>\<open>try\<close>, so its
  \<^verbatim>\<open>ConnectionError\<close> leaves as it is.
\<close>

definition execute_command ::
  "('c, 'w) driver \<Rightarrow> JetsonConfig \<Rightarrow> string \<Rightarrow> int option \<Rightarrow> (('c, 'w) state, command_result) prog"
where
  "execute_command drv cfg cmd tmo =
     (let t = (case tmo of None \<Rightarrow> timeout cfg | Some n \<Rightarrow> if n = 0 then timeout cfg else n)
      in then_do (connect drv cfg) (\<lambda>client.
           try_except
             (then_do (ask (exec_command drv client cmd t)) (\<lambda>ch. lift (read_result drv cmd ch)))
             (\<lambda>e. raise (command_failure cmd e))))"

text \<open>
  \<^verbatim>\<open>transfer_file\<close>: the copy runs on the client the first \<^verbatim>\<open>connect()\<close>
  returned, also when the \<^verbatim>\<open>mkdir\<close> in between has replaced the session.
\<close>

definition transfer_file ::
  "('c, 'w) driver \<Rightarrow> JetsonConfig \<Rightarrow> string \<Rightarrow> string \<Rightarrow> (('c, 'w) state, unit) prog"
where
  "transfer_file drv cfg local_path remote_path =
     then_do (connect drv cfg) (\<lambda>client.
       try_except
         (then_do (execute_command drv cfg (''mkdir -p '' @ path_parent remote_path) None) (\<lambda>_.
            ask_unit (scp_put drv client local_path remote_path)))
         (\<lambda>e. raise (Exn Exception (''SCP transfer failed: '' @ exn_str e))))"

section \<open>The package builder (\<^verbatim>\<open>simple_package_builder.py\<close>)\<close>

text \<open>
  The staged directory is kept as the list of files written below it, by relative
  path, and of the directories made. Making a directory and writing a text file
  below the fresh staging directory are taken to succeed; copying a file or a tree
  in, archiving and asking the archive's size are requests to the environment. A
  README is the values that fill its template: deployment name, model URI, time,
  base path and configuration text.
\<close>

datatype content =
    Copy string | ExecCopy string | Text string | Readme string string string string string

record staged =
  staged_files :: "(string \<times> content) list"
  staged_dirs :: "string list"

definition stage_file :: "string \<Rightarrow> content \<Rightarrow> staged \<Rightarrow> staged" where
  "stage_file rel c sg = sg\<lparr>staged_files := dict_set (staged_files sg) rel c\<rparr>"

definition stage_dir :: "string \<Rightarrow> staged \<Rightarrow> staged" where
  "stage_dir rel sg = (if rel \<in> set (staged_dirs sg) then sg else sg\<lparr>staged_dirs := staged_dirs sg @ [rel]\<rparr>)"

record builder =
  project_root :: string
  face_recognition_files :: "(string \<times> string option) list"

definition face_recognition_names :: "string list" where
  "face_recognition_names =
     [''face_features.pkl'', ''face_database.json'', ''model_params.json'',
      ''inference_server_rtsp.py'', ''model_server.py'', ''client.py'',
      ''Dockerfile.inference-server'', ''Dockerfile.model-server'',
      ''model_server_requirements.txt'', ''face_model_v2.pkl'', ''label_encoder.pkl'',
      ''random_forest_model.pkl'', ''amrit_test.jpg'']"

definition search_paths :: "string \<Rightarrow> string list" where
  "search_paths rt = [path_join rt ''jetson'', path_join rt ''models'', path_join rt ''jetson/docker'']"

definition locate_files :: "('c, 'w) driver \<Rightarrow> string \<Rightarrow> 'w \<Rightarrow> (string \<times> string option) list" where
  "locate_files drv rt w =
     map (\<lambda>file_name.
            (file_name,
             find (\<lambda>potential_file. path_exists drv potential_file w)
               (map (\<lambda>search_path. path_join search_path file_name) (search_paths rt))))
       face_recognition_names"

definition new_builder :: "('c, 'w) driver \<Rightarrow> string \<Rightarrow> 'w \<Rightarrow> builder" where
  "new_builder drv rt w = \<lparr>project_root = rt, face_recognition_files = locate_files drv rt w\<rparr>"

text \<open>\<^verbatim>\<open>source_path and Path(source_path).exists()\<close>, with \<^verbatim>\<open>dict.get\<close>.\<close>

definition found_source :: "('c, 'w) driver \<Rightarrow> builder \<Rightarrow> string \<Rightarrow> 'w \<Rightarrow> string option" where
  "found_source drv b file_name w =
     (case map_of (face_recognition_files b) file_name of
        Some (Some source_path) \<Rightarrow>
          if source_path \<noteq> [] \<and> path_exists drv source_path w then Some source_path else None
      | _ \<Rightarrow> None)"

definition copy_model_files ::
  "('c, 'w) driver \<Rightarrow> string \<Rightarrow> string \<Rightarrow> staged \<Rightarrow> (('c, 'w) state, staged) prog"
where
  "copy_model_files drv model_path package_dir sg st =
     (let sg1 = stage_dir ''models'' sg; dest_dir = path_join package_dir ''models''
      in if is_file drv model_path (world st) then
           then_do (ask_unit (copy2 drv model_path (path_join dest_dir (path_name model_path))))
             (\<lambda>_. ret (stage_file (''models/'' @ path_name model_path) (Copy model_path) sg1)) st
         else if is_dir drv model_path (world st) then
           then_do (ask (copytree drv model_path (path_join dest_dir ''mlflow_model'')))
             (\<lambda>rels. ret (foldl (\<lambda>g rel. stage_file (''models/mlflow_model/'' @ rel)
                                     (Copy (path_join model_path rel)) g)
                            (stage_dir ''models/mlflow_model'' sg1) rels)) st
         else ret (stage_file ''models/model_placeholder.txt''
                     (Text (''Model not found at: '' @ model_path)) sg1) st)"

definition data_files :: "string list" where
  "data_files =
     [''face_features.pkl'', ''face_database.json'', ''model_params.json'',
      ''face_model_v2.pkl'', ''label_encoder.pkl'', ''random_forest_model.pkl'']"

definition script_files :: "string list" where
  "script_files = [''inference_server_rtsp.py'', ''client.py'', ''model_server.py'', ''amrit_test.jpg'']"

definition docker_files :: "string list" where
  "docker_files =
     [''Dockerfile.inference-server'', ''Dockerfile.model-server'', ''model_server_requirements.txt'']"

fun copy_data_loop ::
  "('c, 'w) driver \<Rightarrow> builder \<Rightarrow> string \<Rightarrow> string list \<Rightarrow> staged \<Rightarrow> (('c, 'w) state, staged) prog"
where
  "copy_data_loop drv b dest_dir [] sg st = ret sg st"
| "copy_data_loop drv b dest_dir (file_name # rest) sg st =
     (case found_source drv b file_name (world st) of
        Some source_path \<Rightarrow>
          then_do (ask_unit (copy2 drv source_path (path_join dest_dir file_name)))
            (\<lambda>_. copy_data_loop drv b dest_dir rest
                    (stage_file (''data/'' @ file_name) (Copy source_path) sg)) st
      | None \<Rightarrow>
          copy_data_loop drv b dest_dir rest
            (stage_file (''data/'' @ file_name @ ''.placeholder'')
               (Text (''Original file not found: '' @ file_name)) sg) st)"

definition copy_face_recognition_data ::
  "('c, 'w) driver \<Rightarrow> builder \<Rightarrow> string \<Rightarrow> staged \<Rightarrow> (('c, 'w) state, staged) prog"
where
  "copy_face_recognition_data drv b package_dir sg =
     copy_data_loop drv b (path_join package_dir ''data'') data_files (stage_dir ''data'' sg)"

fun copy_scripts_loop ::
  "('c, 'w) driver \<Rightarrow> builder \<Rightarrow> string \<Rightarrow> string list \<Rightarrow> staged \<Rightarrow> (('c, 'w) state, staged) prog"
where
  "copy_scripts_loop drv b dest_dir [] sg st = ret sg st"
| "copy_scripts_loop drv b dest_dir (script_name # rest) sg st =
     (case found_source drv b script_name (world st) of
        Some source_path \<Rightarrow>
          then_do (ask_unit (copy2 drv source_path (path_join dest_dir script_name)))
            (\<lambda>_. copy_scripts_loop drv b dest_dir rest
                    (stage_file (''scripts/'' @ script_name) (ExecCopy source_path) sg)) st
      | None \<Rightarrow> copy_scripts_loop drv b dest_dir rest sg st)"

definition copy_scripts ::
  "('c, 'w) driver \<Rightarrow> builder \<Rightarrow> string \<Rightarrow> staged \<Rightarrow> (('c, 'w) state, staged) prog"
where
  "copy_scripts drv b package_dir sg =
     copy_scripts_loop drv b (path_join package_dir ''scripts'') script_files (stage_dir ''scripts'' sg)"

fun copy_docker_loop ::
  "('c, 'w) driver \<Rightarrow> builder \<Rightarrow> string \<Rightarrow> string list \<Rightarrow> staged \<Rightarrow> (('c, 'w) state, staged) prog"
where
  "copy_docker_loop drv b dest_dir [] sg st = ret sg st"
| "copy_docker_loop drv b dest_dir (docker_file # rest) sg st =
     (case found_source drv b docker_file (world st) of
        Some source_path \<Rightarrow>
          then_do (ask_unit (copy2 drv source_path (path_join dest_dir docker_file)))
            (\<lambda>_. copy_docker_loop drv b dest_dir rest
                    (stage_file (''docker/'' @ docker_file) (Copy source_path) (stage_dir ''docker'' sg))) st
      | None \<Rightarrow> copy_docker_loop drv b dest_dir rest sg st)"

definition copy_docker_files ::
  "('c, 'w) driver \<Rightarrow> builder \<Rightarrow> string \<Rightarrow> staged \<Rightarrow> (('c, 'w) state, staged) prog"
where
  "copy_docker_files drv b package_dir sg =
     copy_docker_loop drv b (path_join package_dir ''docker'') docker_files sg"

definition create_readme ::
  "('c, 'w) driver \<Rightarrow> JetsonConfig \<Rightarrow> string \<Rightarrow> string \<Rightarrow> pydict \<Rightarrow> staged \<Rightarrow> (('c, 'w) state, staged) prog"
where
  "create_readme drv cfg deployment_name model_uri config sg st =
     ret (stage_file ''README.txt''
            (Readme deployment_name model_uri (now_strftime drv (world st))
               (deployment_base_path cfg)
               (if config \<noteq> [] then repr_dict config else ''No additional configuration''))
            sg) st"

definition get_file_list :: "staged \<Rightarrow> string list" where
  "get_file_list sg = sort (map fst (staged_files sg))"

definition create_tar_package ::
  "('c, 'w) driver \<Rightarrow> string \<Rightarrow> string \<Rightarrow> (('c, 'w) state, string) prog"
where
  "create_tar_package drv package_dir deployment_name =
     try_except
       (then_do (ask (make_tar drv package_dir (''_'' @ deployment_name @ ''_files.tar.gz'')))
          (\<lambda>tar_path st.
             if \<not> path_exists drv tar_path (world st)
             then raise (Exn Exception (''Package file was not created: '' @ tar_path)) st
             else ret tar_path st))
       (\<lambda>e. raise (Exn Exception (''Package creation failed: '' @ exn_str e)))"

record package_info =
  package_path :: string
  pkg_deployment_name :: string
  pkg_created_at :: string
  size_mb :: rat
  included_files :: "string list"

text \<open>The \<^verbatim>\<open>with\<close> block: the directory is removed on the way out, and a raise while removing it wins.\<close>

definition with_cleanup :: "('s, 'a) prog \<Rightarrow> ('s, unit) prog \<Rightarrow> ('s, 'a) prog" where
  "with_cleanup body cleanup =
     (\<lambda>s. case body s of
        (r, s1) \<Rightarrow> (case cleanup s1 of (Inl e, s2) \<Rightarrow> (Inl e, s2) | (Inr _, s2) \<Rightarrow> (r, s2)))"

definition stage_package ::
  "('c, 'w) driver \<Rightarrow> JetsonConfig \<Rightarrow> builder \<Rightarrow> string \<Rightarrow> string \<Rightarrow> string \<Rightarrow> pydict \<Rightarrow> string \<Rightarrow>
     (('c, 'w) state, staged) prog"
where
  "stage_package drv cfg b model_path deployment_name model_uri config package_dir =
     then_do (copy_model_files drv model_path package_dir \<lparr>staged_files = [], staged_dirs = []\<rparr>) (\<lambda>sg1.
     then_do (copy_face_recognition_data drv b package_dir sg1) (\<lambda>sg2.
     then_do (copy_scripts drv b package_dir sg2) (\<lambda>sg3.
     then_do (copy_docker_files drv b package_dir sg3) (\<lambda>sg4.
     create_readme drv cfg deployment_name model_uri config sg4))))"

definition build_simple_package ::
  "('c, 'w) driver \<Rightarrow> JetsonConfig \<Rightarrow> builder \<Rightarrow> string \<Rightarrow> string \<Rightarrow> string \<Rightarrow> pydict \<Rightarrow>
     (('c, 'w) state, package_info) prog"
where
  "build_simple_package drv cfg b model_path deployment_name model_uri config =
     then_do (ask (mkdtemp drv ''tmp'')) (\<lambda>temp_dir.
       with_cleanup
         (let package_dir = path_join temp_dir ''package'' in
          then_do (stage_package drv cfg b model_path deployment_name model_uri config package_dir) (\<lambda>sg.
          then_do (create_tar_package drv package_dir deployment_name) (\<lambda>tar_path st.
            case getsize drv tar_path (world st) of
              Inl e \<Rightarrow> (Inl e, st)
            | Inr n \<Rightarrow>
                (Inr \<lparr>package_path = tar_path, pkg_deployment_name = deployment_name,
                      pkg_created_at = now_isoformat drv (world st),
                      size_mb = of_int n / (1024 * 1024),
                      included_files = get_file_list sg\<rparr>, st))))
         (ask_unit (rmtree drv temp_dir)))"

section \<open>The deployment target (\<^verbatim>\<open>simple_plugin.py\<close>)\<close>

text \<open>
  A \<^verbatim>\<open>SimpleJetsonDeploymentTarget\<close> holds a validated configuration, a connection
  manager and a builder; \<^verbatim>\<open>endpoint\<close>, which no method reads, is left out.
\<close>

record model_info =
  mi_model_uri :: string
  local_path :: string
  temp_dir :: string

record transfer_info =
  remote_package_path :: string
  remote_deployment_path :: string
  package_size_mb :: rat

record extraction_info =
  deployment_path :: string
  timestamp :: string
  ex_status :: string

record deployment_result =
  dr_name :: string
  dr_model_uri :: string
  dr_flavor :: string
  dr_status :: string
  deployment_type :: string
  jetson_path :: string
  transferred_files :: "string list"
  dr_created_at :: string
  dr_config :: pydict
  dr_size_mb :: rat

record file_flags =
  file_count :: int
  has_model :: bool
  has_face_features :: bool
  has_face_database :: bool
  has_model_params :: bool
  has_inference_script :: bool
  has_face_files :: bool

text \<open>
  What \<^verbatim>\<open>_check_deployment_files\<close> returns: the full dictionary, or
  \<^verbatim>\<open>{"file_count": 0, "error": text}\<close>, which has no other key.
\<close>

datatype file_status = Status file_flags | Failed string

record deployment =
  dep_name :: string
  dep_path :: string
  dep_file_count :: int
  dep_has_model :: bool
  dep_has_face_files :: bool
  dep_status :: string
  dep_file_status :: "file_status option"

definition remote_path_of :: "JetsonConfig \<Rightarrow> string \<Rightarrow> string" where
  "remote_path_of cfg deployment_name = deployment_base_path cfg @ ''/'' @ deployment_name"

definition download_model :: "('c, 'w) driver \<Rightarrow> string \<Rightarrow> (('c, 'w) state, model_info) prog" where
  "download_model drv model_uri =
     try_except
       (then_do (ask (mkdtemp drv ''mlflow_simple_'')) (\<lambda>dir.
        then_do (ask (download_artifact drv model_uri dir)) (\<lambda>path.
        ret \<lparr>mi_model_uri = model_uri, local_path = path, temp_dir = dir\<rparr>)))
       (\<lambda>e. raise (Exn Exception (''Failed to download model from '' @ model_uri @ '': '' @ exn_str e)))"

definition transfer_files ::
  "('c, 'w) driver \<Rightarrow> JetsonConfig \<Rightarrow> package_info \<Rightarrow> string \<Rightarrow> (('c, 'w) state, transfer_info) prog"
where
  "transfer_files drv cfg package deployment_name =
     try_except
       (let remote_deployment = remote_path_of cfg deployment_name;
            remote_package = remote_deployment @ ''/files_package.tar.gz''
        in then_do (execute_command drv cfg (''mkdir -p '' @ remote_deployment) None) (\<lambda>_.
           then_do (transfer_file drv cfg (package_path package) remote_package) (\<lambda>_.
           ret \<lparr>remote_package_path = remote_package, remote_deployment_path = remote_deployment,
                package_size_mb = size_mb package\<rparr>)))
       (\<lambda>e. raise (Exn Exception (''Failed to transfer files: '' @ exn_str e)))"

definition extract_files ::
  "('c, 'w) driver \<Rightarrow> JetsonConfig \<Rightarrow> transfer_info \<Rightarrow> string \<Rightarrow> (('c, 'w) state, extraction_info) prog"
where
  "extract_files drv cfg transfer deployment_name =
     try_except
       (then_do (execute_command drv cfg
                   (''cd '' @ remote_deployment_path transfer @ '' && tar -xzf files_package.tar.gz'') None)
          (\<lambda>result.
             if \<not> success result then raise (Exn Exception (''Extraction failed: '' @ stderr result))
             else
               then_do (execute_command drv cfg
                          (''find '' @ remote_deployment_path transfer @ '' -type f -name '' @ sq @ ''*.py'' @ sq
                             @ '' -exec chmod +x {} +'') None) (\<lambda>_.
               then_do (execute_command drv cfg (''rm -f '' @ remote_package_path transfer) None) (\<lambda>_ st.
                 (Inr \<lparr>deployment_path = remote_deployment_path transfer,
                       timestamp = now_isoformat drv (world st), ex_status = ''extracted''\<rparr>, st)))))
       (\<lambda>e. raise (Exn Exception (''Failed to extract files: '' @ exn_str e)))"

definition cleanup_deployment_files ::
  "('c, 'w) driver \<Rightarrow> JetsonConfig \<Rightarrow> string \<Rightarrow> (('c, 'w) state, unit) prog"
where
  "cleanup_deployment_files drv cfg deployment_name =
     try_except
       (then_do (execute_command drv cfg (''rm -rf '' @ remote_path_of cfg deployment_name) None) (\<lambda>_. ret ()))
       (\<lambda>e. ret ())"

definition cleanup_failed_transfer ::
  "('c, 'w) driver \<Rightarrow> JetsonConfig \<Rightarrow> string \<Rightarrow> (('c, 'w) state, unit) prog"
where
  "cleanup_failed_transfer drv cfg deployment_name =
     try_except (cleanup_deployment_files drv cfg deployment_name) (\<lambda>e. ret ())"

text \<open>The four steps of \<^verbatim>\<open>create_deployment\<close>, inside its \<^verbatim>\<open>try\<close>.\<close>

definition create_steps ::
  "('c, 'w) driver \<Rightarrow> JetsonConfig \<Rightarrow> builder \<Rightarrow> string \<Rightarrow> string \<Rightarrow> string option \<Rightarrow> pydict option \<Rightarrow>
     (('c, 'w) state, deployment_result) prog"
where
  "create_steps drv cfg b name model_uri flavor config =
     (let deployment_config = (case config of None \<Rightarrow> [] | Some d \<Rightarrow> d) in
      then_do (download_model drv model_uri) (\<lambda>model.
      then_do (build_simple_package drv cfg b (local_path model) name model_uri deployment_config) (\<lambda>package.
      then_do (transfer_files drv cfg package name) (\<lambda>transfer.
      then_do (extract_files drv cfg transfer name) (\<lambda>extraction.
      ret \<lparr>dr_name = name, dr_model_uri = model_uri,
           dr_flavor = (case flavor of Some f \<Rightarrow> if f \<noteq> [] then f else ''pytorch'' | None \<Rightarrow> ''pytorch''),
           dr_status = ''files_transferred'', deployment_type = ''file_transfer_only'',
           jetson_path = deployment_path extraction,
           transferred_files = included_files package,
           dr_created_at = timestamp extraction,
           dr_config = deployment_config,
           dr_size_mb = size_mb package\<rparr>)))))"

definition create_deployment ::
  "('c, 'w) driver \<Rightarrow> JetsonConfig \<Rightarrow> builder \<Rightarrow> string \<Rightarrow> string \<Rightarrow> string option \<Rightarrow> pydict option \<Rightarrow>
     (('c, 'w) state, deployment_result) prog"
where
  "create_deployment drv cfg b name model_uri flavor config =
     try_except (create_steps drv cfg b name model_uri flavor config)
       (\<lambda>e. then_do (cleanup_failed_transfer drv cfg name) (\<lambda>_.
              raise (Exn MlflowException (''Failed to transfer files to Jetson: '' @ exn_str e))))"

definition update_deployment ::
  "('c, 'w) driver \<Rightarrow> JetsonConfig \<Rightarrow> builder \<Rightarrow> string \<Rightarrow> string \<Rightarrow> string option \<Rightarrow> pydict option \<Rightarrow>
     (('c, 'w) state, deployment_result) prog"
where
  "update_deployment drv cfg b name model_uri flavor config =
     try_except
       (then_do (cleanup_deployment_files drv cfg name) (\<lambda>_.
          create_deployment drv cfg b name model_uri flavor config))
       (\<lambda>e. raise (Exn MlflowException (''Failed to update deployment: '' @ exn_str e)))"

definition delete_deployment ::
  "('c, 'w) driver \<Rightarrow> JetsonConfig \<Rightarrow> string \<Rightarrow> (('c, 'w) state, unit) prog"
where
  "delete_deployment drv cfg name =
     try_except (cleanup_deployment_files drv cfg name)
       (\<lambda>e. raise (Exn MlflowException (''Failed to delete deployment: '' @ exn_str e)))"

text \<open>
  \<^verbatim>\<open>_check_deployment_files\<close>: \<open>check_body\<close> is its \<^verbatim>\<open>try\<close> block. One probe is \<^verbatim>\<open>bool(result["success"] and result["stdout"].strip())\<close>.\<close>

definition probe_flag ::
  "('c, 'w) driver \<Rightarrow> JetsonConfig \<Rightarrow> string \<Rightarrow> (('c, 'w) state, bool) prog"
where
  "probe_flag drv cfg check_cmd =
     then_do (execute_command drv cfg check_cmd None)
       (\<lambda>result. ret (success result \<and> strip (stdout result) \<noteq> []))"

definition find_named :: "string \<Rightarrow> string \<Rightarrow> string" where
  "find_named remote_dir file_name =
     ''find '' @ remote_dir @ '' -name '' @ sq @ file_name @ sq @ '' | head -1''"

definition check_body ::
  "('c, 'w) driver \<Rightarrow> JetsonConfig \<Rightarrow> string \<Rightarrow> (('c, 'w) state, file_status) prog"
where
  "check_body drv cfg deployment_name =
       (let remote_dir = remote_path_of cfg deployment_name in
        then_do (execute_command drv cfg (''find '' @ remote_dir @ '' -type f | wc -l'') None)
          (\<lambda>count_result.
        then_do (lift (if success count_result
                       then (case py_int (stdout count_result) of
                               None \<Rightarrow> Inl (Exn ValueError
                                 (''invalid literal for int() with base 10: '' @ repr_str (stdout count_result)))
                             | Some n \<Rightarrow> Inr n)
                       else Inr 0)) (\<lambda>n.
        then_do (probe_flag drv cfg
                   (''find '' @ remote_dir @ '' -name '' @ sq @ ''*.pkl'' @ sq @ '' -o -name '' @ sq
                      @ ''*.pth'' @ sq @ '' -o -name '' @ sq @ ''*.pt'' @ sq @ '' | head -1'')) (\<lambda>model.
        then_do (probe_flag drv cfg (find_named remote_dir ''face_features.pkl'')) (\<lambda>features.
        then_do (probe_flag drv cfg (find_named remote_dir ''face_database.json'')) (\<lambda>database.
        then_do (probe_flag drv cfg (find_named remote_dir ''model_params.json'')) (\<lambda>params.
        then_do (probe_flag drv cfg (find_named remote_dir ''inference_server.py'')) (\<lambda>script.
        ret (Status \<lparr>file_count = n, has_model = model, has_face_features = features,
                     has_face_database = database, has_model_params = params,
                     has_inference_script = script,
                     has_face_files = (features \<and> database \<and> params)\<rparr>)))))))))"

definition check_deployment_files ::
  "('c, 'w) driver \<Rightarrow> JetsonConfig \<Rightarrow> string \<Rightarrow> (('c, 'w) state, file_status) prog"
where
  "check_deployment_files drv cfg deployment_name =
     try_except (check_body drv cfg deployment_name) (\<lambda>e. ret (Failed (exn_str e)))"

text \<open>
  The loop of \<^verbatim>\<open>_list_file_deployments\<close>. Reading \<^verbatim>\<open>file_status["has_model"]\<close>
  from the dictionary of a failed check raises \<^verbatim>\<open>KeyError\<close>.
\<close>

fun list_loop ::
  "('c, 'w) driver \<Rightarrow> JetsonConfig \<Rightarrow> string list \<Rightarrow> deployment list \<Rightarrow> (('c, 'w) state, deployment list) prog"
where
  "list_loop drv cfg [] deployments st = ret deployments st"
| "list_loop drv cfg (deployment_dir # rest) deployments st =
     (if strip deployment_dir \<noteq> [] then
        then_do (check_deployment_files drv cfg (path_name deployment_dir))
          (\<lambda>file_status.
             case file_status of
               Status flags \<Rightarrow>
                 list_loop drv cfg rest
                   (deployments @
                     [\<lparr>dep_name = path_name deployment_dir, dep_path = deployment_dir,
                       dep_file_count = file_count flags, dep_has_model = has_model flags,
                       dep_has_face_files = has_face_files flags,
                       dep_status = (if file_count flags > 0 then ''files_present'' else ''empty''),
                       dep_file_status = None\<rparr>])
             | Failed msg \<Rightarrow> raise (Exn KeyError (sq @ ''has_model'' @ sq))) st
      else list_loop drv cfg rest deployments st)"

definition find_cmd :: "JetsonConfig \<Rightarrow> string" where
  "find_cmd cfg =
     ''find '' @ deployment_base_path cfg @ '' -maxdepth 1 -type d -not -path '' @ deployment_base_path cfg"

definition list_file_deployments ::
  "('c, 'w) driver \<Rightarrow> JetsonConfig \<Rightarrow> (('c, 'w) state, deployment list) prog"
where
  "list_file_deployments drv cfg =
     try_except
       (then_do (execute_command drv cfg (find_cmd cfg) None)
          (\<lambda>result.
             if \<not> success result then ret []
             else list_loop drv cfg (split CHR 0x0A (stdout result)) []))
       (\<lambda>e. ret [])"

definition list_deployments ::
  "('c, 'w) driver \<Rightarrow> JetsonConfig \<Rightarrow> (('c, 'w) state, deployment list) prog"
where
  "list_deployments drv cfg = try_except (list_file_deployments drv cfg) (\<lambda>e. ret [])"

definition get_deployment ::
  "('c, 'w) driver \<Rightarrow> JetsonConfig \<Rightarrow> string \<Rightarrow> (('c, 'w) state, deployment) prog"
where
  "get_deployment drv cfg name =
     try_except
       (then_do (list_deployments drv cfg)
          (\<lambda>deployments.
             case find (\<lambda>d. dep_name d = name) deployments of
               Some d \<Rightarrow>
                 then_do (check_deployment_files drv cfg name)
                   (\<lambda>file_status. ret (d\<lparr>dep_file_status := Some file_status\<rparr>))
             | None \<Rightarrow> raise (Exn MlflowException (''Deployment '' @ sq @ name @ sq @ '' not found''))))
       (\<lambda>e. raise (Exn MlflowException (''Failed to get deployment: '' @ exn_str e)))"

definition predict :: "(('c, 'w) state, 'a) prog" where
  "predict =
     raise (Exn MlflowException
       (''Prediction is not supported by the Jetson file transfer plugin. '' @
        ''This plugin only transfers files to Jetson devices. '' @
        ''For predictions, SSH to the Jetson device and run the inference server manually.''))"

text \<open>\<^verbatim>\<open>JetsonConfig(device_ip=...)\<close>: the defaults of the dataclass.\<close>

definition default_config :: "string \<Rightarrow> JetsonConfig" where
  "default_config ip =
     \<lparr>device_ip = ip, username = ''newcastleuni'', ssh_key_path = None, password = None,
      deployment_base_path = ''/home/newcastleuni/mlflow_deployments'', timeout = 120,
      max_retries = 3\<rparr>"

section \<open>A simulated device\<close>

text \<open>
  One concrete environment, on which the theorems below are run. The device keeps
  the paths that exist on it; \<^verbatim>\<open>rm -rf\<close>, \<^verbatim>\<open>mkdir -p\<close>, \<^verbatim>\<open>rm -f\<close> and the
  extraction change them when they exit with status 0, \<^verbatim>\<open>scp\<close> adds the file
  it copies, and every other command leaves them alone.
  What a command prints and how it exits is the parameter \<open>respond\<close>. A request
  over the network succeeds while \<open>link_budget\<close> lasts and the client's session
  is alive, and uses up one unit of the budget.
\<close>

record device =
  remote :: "string list"
  alive :: "nat list"
  link_budget :: nat
  clients :: nat
  local_files :: "string list"

definition under :: "string \<Rightarrow> string \<Rightarrow> bool" where
  "under d p \<longleftrightarrow> p = d \<or> prefix (d @ ''/'') p"

definition remote_effect :: "string \<Rightarrow> string list \<Rightarrow> string list" where
  "remote_effect cmd fs =
     (if prefix ''rm -rf '' cmd then filter (\<lambda>p. \<not> under (drop 7 cmd) p) fs
      else if prefix ''mkdir -p '' cmd then List.insert (drop 9 cmd) fs
      else if prefix ''rm -f '' cmd then removeAll (drop 6 cmd) fs
      else if prefix ''cd '' cmd \<and> suffix '' && tar -xzf files_package.tar.gz'' cmd
        then List.insert (take (length cmd - 36) (drop 3 cmd) @ ''/README.txt'') fs
      else fs)"

definition link_down :: "device \<Rightarrow> nat \<Rightarrow> bool" where
  "link_down w c \<longleftrightarrow> link_budget w = 0 \<or> c \<notin> set (alive w)"

definition sim :: "(string \<Rightarrow> int \<times> string \<times> string) \<Rightarrow> (nat, device) driver" where
  "sim respond =
     \<lparr>expanduser = (\<lambda>p. if prefix ''~/'' p then ''/home/user/'' @ drop 2 p else p),
      path_exists = (\<lambda>p w. p \<in> set (local_files w)),
      is_file = (\<lambda>p w. p \<in> set (local_files w)),
      is_dir = (\<lambda>p w. False),
      now_isoformat = (\<lambda>w. ''2025-01-01T00:00:00''),
      now_strftime = (\<lambda>w. ''2025-01-01 00:00:00''),
      mkdtemp = (\<lambda>pre w. (Inr (''/tmp/'' @ pre @ ''0''), w)),
      rmtree = (\<lambda>d w. (None, w)),
      copy2 = (\<lambda>src dst w. (None, w)),
      copytree = (\<lambda>src dst w. (Inr [], w)),
      make_tar = (\<lambda>d suf w. (Inr (''/tmp/mlflow_jetson_0'' @ suf),
                    w\<lparr>local_files := (''/tmp/mlflow_jetson_0'' @ suf) # local_files w\<rparr>)),
      getsize = (\<lambda>p w. Inr 2048),
      unicode_error = (\<lambda>b. ''invalid start byte''),
      download_artifact = (\<lambda>uri d w.
         if uri = [] then (Inl (Exn MlflowException ''no such model''), w)
         else (Inr (d @ ''/model.bin''), w\<lparr>local_files := (d @ ''/model.bin'') # local_files w\<rparr>)),
      new_client = (\<lambda>w. (clients w, w\<lparr>clients := Suc (clients w)\<rparr>)),
      ssh_connect = (\<lambda>c host user cred t w.
         if link_budget w = 0 then (Some (Exn (Other ''socket.timeout'') ''timed out''), w)
         else (None, w\<lparr>alive := c # alive w, link_budget := link_budget w - 1\<rparr>)),
      exec_command = (\<lambda>c cmd t w.
         if link_down w c then (Inl (Exn (Other ''SSHException'') ''SSH session not active''), w)
         else (Inr \<lparr>recv_exit_status = Inr (fst (respond cmd)),
                    read_stdout = Inr (fst (snd (respond cmd))),
                    read_stderr = Inr (snd (snd (respond cmd)))\<rparr>,
               w\<lparr>remote := (if fst (respond cmd) = 0 then remote_effect cmd (remote w) else remote w),
                 link_budget := link_budget w - 1\<rparr>)),
      ssh_close = (\<lambda>c w. w\<lparr>alive := removeAll c (alive w)\<rparr>),
      scp_put = (\<lambda>c l r w.
         if link_down w c then (Some (Exn (Other ''SCPException'') ''SSH session not active''), w)
         else (None, w\<lparr>remote := List.insert r (remote w), link_budget := link_budget w - 1\<rparr>))\<rparr>"

definition quiet :: "string \<Rightarrow> int \<times> string \<times> string" where
  "quiet cmd = (0, [], [])"

definition device0 :: device where
  "device0 = \<lparr>remote = [], alive = [], link_budget = 100, clients = 0, local_files = []\<rparr>"

text \<open>Ways for a command to answer: nothing and status 0, bytes that are no text, a refusal.\<close>

definition blob :: "string \<Rightarrow> int \<times> string \<times> string" where
  "blob cmd = (0, [CHR 0xFF], [])"

definition refusing :: "string \<Rightarrow> int \<times> string \<times> string" where
  "refusing cmd = (1, [], ''Permission denied'')"

text \<open>A workstation with two key files, a login by password, and a manager that has not connected yet.\<close>

definition lab :: device where
  "lab = device0\<lparr>local_files := [''/home/user/.ssh/id_rsa'', ''/keys/jetson'']\<rparr>"

definition login :: JetsonConfig where
  "login = (default_config ''10.0.0.5'')\<lparr>password := Some ''nvidia''\<rparr>"

definition fresh :: "(nat, device) state" where
  "fresh = \<lparr>ssh_client = None, world = device0\<rparr>"

text \<open>A manager whose cached session has been dropped by the device.\<close>

definition dropped :: "(nat, device) state" where
  "dropped = \<lparr>ssh_client = Some 0, world = device0\<lparr>clients := 1\<rparr>\<rparr>"

text \<open>
  A device with two deployments whose probes all print \<^verbatim>\<open>1\<close>; a device with one
  deployment on which every probe is refused; a link that carries fourteen
  requests.
\<close>

definition two_dirs :: "string \<Rightarrow> int \<times> string \<times> string" where
  "two_dirs cmd =
     (if cmd = find_cmd login
      then (0, ''/home/newcastleuni/mlflow_deployments/a'' @ nl @ ''/home/newcastleuni/mlflow_deployments/b'', [])
      else (0, ''1'', []))"

definition denied_probes :: "string \<Rightarrow> int \<times> string \<times> string" where
  "denied_probes cmd =
     (if cmd = find_cmd login then (0, ''/home/newcastleuni/mlflow_deployments/demo'', [])
      else (1, [], ''find: Permission denied''))"

definition short_link :: "(nat, device) state" where
  "short_link = \<lparr>ssh_client = None, world = device0\<lparr>link_budget := 14\<rparr>\<rparr>"

text \<open>A device on which the archive does not unpack, and the builder of a project with no companion file.\<close>

definition bad_archive :: "string \<Rightarrow> int \<times> string \<times> string" where
  "bad_archive cmd =
     (if suffix ''tar -xzf files_package.tar.gz'' cmd then (2, [], ''tar: Unexpected EOF in archive'')
      else (0, [], []))"

definition workshop :: builder where
  "workshop = new_builder (sim quiet) ''/proj'' device0"

text \<open>How the simulated device changes its paths, and a device with two deployments.\<close>

definition sim_sem :: "(string \<Rightarrow> int \<times> string \<times> string) \<Rightarrow> string \<Rightarrow> string list \<Rightarrow> string list" where
  "sim_sem respond cmd fs = (if fst (respond cmd) = 0 then remote_effect cmd fs else fs)"

definition stocked :: "(nat, device) state" where
  "stocked =
     \<lparr>ssh_client = None,
      world = device0\<lparr>remote :=
        [''/home/newcastleuni/mlflow_deployments/demo'',
         ''/home/newcastleuni/mlflow_deployments/demo/models/model.bin'',
         ''/home/newcastleuni/mlflow_deployments/other'']\<rparr>\<rparr>"

text \<open>
  No path of the directory \<open>d\<close> is on the device; the device with two deployments,
  on a link that carries \<open>n\<close> requests.
\<close>

definition absent :: "string \<Rightarrow> string list \<Rightarrow> bool" where
  "absent d fs \<longleftrightarrow> (\<forall>p \<in> set fs. \<not> under d p)"

definition on_link :: "nat \<Rightarrow> (nat, device) state" where
  "on_link n = stocked\<lparr>world := (world stocked)\<lparr>link_budget := n\<rparr>\<rparr>"

section \<open>Predicates of the specification\<close>

text \<open>A credential is usable when the connection could present it.\<close>

definition key_usable :: "('c, 'w) driver \<Rightarrow> 'w \<Rightarrow> JetsonConfig \<Rightarrow> bool" where
  "key_usable drv w cfg =
     (case ssh_key_path cfg of None \<Rightarrow> False | Some k \<Rightarrow> k \<noteq> [] \<and> path_exists drv (expanduser drv k) w)"

definition password_usable :: "JetsonConfig \<Rightarrow> bool" where
  "password_usable cfg = truthy (password cfg)"

text \<open>The timeout \<^verbatim>\<open>execute_command\<close> passes on.\<close>

definition effective_timeout :: "JetsonConfig \<Rightarrow> int option \<Rightarrow> int" where
  "effective_timeout cfg tmo = (case tmo of None \<Rightarrow> timeout cfg | Some n \<Rightarrow> if n = 0 then timeout cfg else n)"

text \<open>The first command of \<^verbatim>\<open>_check_deployment_files\<close>.\<close>

definition count_cmd :: "JetsonConfig \<Rightarrow> string \<Rightarrow> string" where
  "count_cmd cfg deployment_name = ''find '' @ remote_path_of cfg deployment_name @ '' -type f | wc -l''"

text \<open>
  The first of the four steps of \<^verbatim>\<open>create_deployment\<close> that raises, with the
  exception and the state it leaves; \<open>None\<close> when all four return.
\<close>

definition first_failure ::
  "('c, 'w) driver \<Rightarrow> JetsonConfig \<Rightarrow> builder \<Rightarrow> string \<Rightarrow> string \<Rightarrow> pydict option \<Rightarrow>
     ('c, 'w) state \<Rightarrow> (exn \<times> ('c, 'w) state) option"
where
  "first_failure drv cfg b name model_uri config st =
     (case download_model drv model_uri st of
        (Inl e, s1) \<Rightarrow> Some (e, s1)
      | (Inr model, s1) \<Rightarrow>
         (case build_simple_package drv cfg b (local_path model) name model_uri
                 (case config of None \<Rightarrow> [] | Some d \<Rightarrow> d) s1 of
            (Inl e, s2) \<Rightarrow> Some (e, s2)
          | (Inr package, s2) \<Rightarrow>
             (case transfer_files drv cfg package name s2 of
                (Inl e, s3) \<Rightarrow> Some (e, s3)
              | (Inr transfer, s3) \<Rightarrow>
                 (case extract_files drv cfg transfer name s3 of
                    (Inl e, s4) \<Rightarrow> Some (e, s4)
                  | (Inr extraction, s4) \<Rightarrow> None))))"

text \<open>
  What the theorems on remote files assume of the device. Its file state, of some
  type \<open>'r\<close>, is read off the world by \<open>files\<close>; a command that is issued
  changes it by \<open>sem\<close>, a command that could not be issued leaves it alone, and
  so does every other request: those to the local disk and the registry, opening
  and closing a session, and the probe of \<^verbatim>\<open>connect\<close>.
\<close>

definition remote_shell :: "('c, 'w) driver \<Rightarrow> ('w \<Rightarrow> 'r) \<Rightarrow> (string \<Rightarrow> 'r \<Rightarrow> 'r) \<Rightarrow> bool" where
  "remote_shell drv files sem \<longleftrightarrow>
     (\<forall>p w. files (snd (mkdtemp drv p w)) = files w) \<and>
     (\<forall>d w. files (snd (rmtree drv d w)) = files w) \<and>
     (\<forall>s d w. files (snd (copy2 drv s d w)) = files w) \<and>
     (\<forall>s d w. files (snd (copytree drv s d w)) = files w) \<and>
     (\<forall>d s w. files (snd (make_tar drv d s w)) = files w) \<and>
     (\<forall>u d w. files (snd (download_artifact drv u d w)) = files w) \<and>
     (\<forall>w. files (snd (new_client drv w)) = files w) \<and>
     (\<forall>c h u k t w. files (snd (ssh_connect drv c h u k t w)) = files w) \<and>
     (\<forall>c w. files (ssh_close drv c w) = files w) \<and>
     (\<forall>c cmd t w. files (snd (exec_command drv c cmd t w)) =
        (if isl (fst (exec_command drv c cmd t w)) then files w else sem cmd (files w))) \<and>
     (\<forall>r. sem probe_command r = r)"

definition rm_rf :: "JetsonConfig \<Rightarrow> string \<Rightarrow> string" where
  "rm_rf cfg name = ''rm -rf '' @ remote_path_of cfg name"

text \<open>
  What the specification compares \<^verbatim>\<open>update_deployment\<close> with: a deletion,
  then a creation with the same arguments.
\<close>

definition delete_then_create ::
  "('c, 'w) driver \<Rightarrow> JetsonConfig \<Rightarrow> builder \<Rightarrow> string \<Rightarrow> string \<Rightarrow> string option \<Rightarrow> pydict option \<Rightarrow>
     (('c, 'w) state, deployment_result) prog"
where
  "delete_then_create drv cfg b name model_uri flavor config =
     then_do (delete_deployment drv cfg name) (\<lambda>_. create_deployment drv cfg b name model_uri flavor config)"

text \<open>
  A command reaches the device from a state: \<^verbatim>\<open>connect\<close> returns a client and
  the client starts the command. The creation stops before its transfer: the
  download or the package build raises. A program keeps the remote files.
\<close>

definition issued :: "('c, 'w) driver \<Rightarrow> JetsonConfig \<Rightarrow> string \<Rightarrow> ('c, 'w) state \<Rightarrow> bool" where
  "issued drv cfg cmd st =
     (case connect drv cfg st of
        (Inl e, s) \<Rightarrow> False
      | (Inr c, s) \<Rightarrow> \<not> isl (fst (exec_command drv c cmd (effective_timeout cfg None) (world s))))"

definition stops_before_transfer ::
  "('c, 'w) driver \<Rightarrow> JetsonConfig \<Rightarrow> builder \<Rightarrow> string \<Rightarrow> string \<Rightarrow> pydict option \<Rightarrow> ('c, 'w) state \<Rightarrow> bool"
where
  "stops_before_transfer drv cfg b name model_uri config st =
     (case download_model drv model_uri st of
        (Inl e, s1) \<Rightarrow> True
      | (Inr model, s1) \<Rightarrow>
          isl (fst (build_simple_package drv cfg b (local_path model) name model_uri
                      (case config of None \<Rightarrow> [] | Some d \<Rightarrow> d) s1)))"

definition keeps :: "('w \<Rightarrow> 'r) \<Rightarrow> (('c, 'w) state, 'a) prog \<Rightarrow> bool" where
  "keeps files m \<longleftrightarrow> (\<forall>st. files (world (snd (m st))) = files (world st))"

chapter \<open>Properties\<close>

section \<open>The text of a configuration\<close>

text \<open>
  C10, as amended. For a configuration whose password is a non-empty text \<open>p\<close>,
  \<^verbatim>\<open>str(config)\<close> is the dictionary of the fields with the literal
  \<^verbatim>\<open>***hidden***\<close> in the place of the password; it is the same text for every
  other non-empty password \<open>q\<close>, so it does not depend on the password; and the
  configuration record is the same after the call. (That the text never contains
  the characters of the password does not hold: see the theorem after the witness.)
\<close>

theorem config_str_masks_password:
  "p \<noteq> [] \<Longrightarrow>
     fst (config_str (c\<lparr>password := Some p\<rparr>)) =
       ''JetsonConfig('' @
         repr_dict
           [(''device_ip'', PStr (device_ip c)), (''username'', PStr (username c)),
            (''ssh_key_path'', opt_val (ssh_key_path c)), (''password'', PStr ''***hidden***''),
            (''deployment_base_path'', PStr (deployment_base_path c)),
            (''timeout'', PInt (timeout c)), (''max_retries'', PInt (max_retries c))] @ '')'' \<and>
     (q \<noteq> [] \<longrightarrow> fst (config_str (c\<lparr>password := Some q\<rparr>)) = fst (config_str (c\<lparr>password := Some p\<rparr>))) \<and>
     snd (config_str (c\<lparr>password := Some p\<rparr>)) = c\<lparr>password := Some p\<rparr>"
  by (simp add: config_str_def masked_dict_def to_dict_def dict_get_def val_truthy_def opt_val_def
      dict_set_def hidden_def)

text \<open>The default configuration with the password \<^verbatim>\<open>s3cret\<close>, printed in full.\<close>

theorem config_str_masks_password_witness:
  "''s3cret'' \<noteq> [] \<and>
   fst (config_str ((default_config ''10.0.0.5'')\<lparr>password := Some ''s3cret''\<rparr>)) =
     ''JetsonConfig({'' @ sq @ ''device_ip'' @ sq @ '': '' @ sq @ ''10.0.0.5'' @ sq @ '', '' @
       sq @ ''username'' @ sq @ '': '' @ sq @ ''newcastleuni'' @ sq @ '', '' @
       sq @ ''ssh_key_path'' @ sq @ '': None, '' @
       sq @ ''password'' @ sq @ '': '' @ sq @ ''***hidden***'' @ sq @ '', '' @
       sq @ ''deployment_base_path'' @ sq @ '': '' @ sq @ ''/home/newcastleuni/mlflow_deployments'' @ sq @ '', '' @
       sq @ ''timeout'' @ sq @ '': 120, '' @ sq @ ''max_retries'' @ sq @ '': 3})'' \<and>
   fst (config_str ((default_config ''10.0.0.5'')\<lparr>password := Some ''other''\<rparr>)) =
     fst (config_str ((default_config ''10.0.0.5'')\<lparr>password := Some ''s3cret''\<rparr>))"
proof -
  have h: "''s3cret'' \<noteq> []" by simp
  note t = config_str_masks_password [OF h, of "default_config ''10.0.0.5''" "''other''"]
  have a: "fst (config_str ((default_config ''10.0.0.5'')\<lparr>password := Some ''other''\<rparr>)) =
     fst (config_str ((default_config ''10.0.0.5'')\<lparr>password := Some ''s3cret''\<rparr>))"
    using t by simp
  have b: "fst (config_str ((default_config ''10.0.0.5'')\<lparr>password := Some ''s3cret''\<rparr>)) =
     ''JetsonConfig({'' @ sq @ ''device_ip'' @ sq @ '': '' @ sq @ ''10.0.0.5'' @ sq @ '', '' @
       sq @ ''username'' @ sq @ '': '' @ sq @ ''newcastleuni'' @ sq @ '', '' @
       sq @ ''ssh_key_path'' @ sq @ '': None, '' @
       sq @ ''password'' @ sq @ '': '' @ sq @ ''***hidden***'' @ sq @ '', '' @
       sq @ ''deployment_base_path'' @ sq @ '': '' @ sq @ ''/home/newcastleuni/mlflow_deployments'' @ sq @ '', '' @
       sq @ ''timeout'' @ sq @ '': 120, '' @ sq @ ''max_retries'' @ sq @ '': 3})''"
    by code_simp
  show ?thesis using h a b by blast
qed

text \<open>
  A device whose login and password are both \<^verbatim>\<open>nvidia\<close>: the text of the
  configuration contains the password, in the \<^verbatim>\<open>username\<close> entry.
\<close>

theorem config_str_shows_password_text:
  "password ((default_config ''10.0.0.5'')\<lparr>username := ''nvidia'', password := Some ''nvidia''\<rparr>) = Some ''nvidia'' \<and>
   sublist ''nvidia'' (fst (config_str ((default_config ''10.0.0.5'')\<lparr>username := ''nvidia'', password := Some ''nvidia''\<rparr>)))"
  by code_simp

section \<open>Validation\<close>

text \<open>
  C8, as amended. When \<^verbatim>\<open>validate()\<close> returns, at least one credential is usable:
  the key path is set to a file that exists, or the password is a non-empty text.
  A key path that is set always names an existing file, the password is the one
  given, and where the key is usable the connection presents the key. (Both may be
  usable at once: see the theorem after the witness.)
\<close>

theorem validate_leaves_a_credential:
  "validate drv w cfg = Inr cfg' \<Longrightarrow>
     (key_usable drv w cfg' \<or> password_usable cfg') \<and>
     (truthy (ssh_key_path cfg') \<longrightarrow> key_usable drv w cfg') \<and>
     password cfg' = password cfg \<and>
     (key_usable drv w cfg' \<longrightarrow> (\<exists>k. ssh_key_path cfg' = Some k \<and> credential_of cfg' = KeyFile k))"
  by (auto simp: validate_def find_default_key_def check_key_exists_def key_usable_def
      password_usable_def truthy_def credential_of_def Let_def
      split: if_splits sum.splits option.splits)

text \<open>No credential given, and \<^verbatim>\<open>~/.ssh/id_rsa\<close> on the disk: the default key is taken.\<close>

theorem validate_leaves_a_credential_witness:
  "validate (sim quiet) lab (default_config ''10.0.0.5'') =
     Inr ((default_config ''10.0.0.5'')\<lparr>ssh_key_path := Some ''/home/user/.ssh/id_rsa''\<rparr>) \<and>
   key_usable (sim quiet) lab ((default_config ''10.0.0.5'')\<lparr>ssh_key_path := Some ''/home/user/.ssh/id_rsa''\<rparr>) \<and>
   credential_of ((default_config ''10.0.0.5'')\<lparr>ssh_key_path := Some ''/home/user/.ssh/id_rsa''\<rparr>) =
     KeyFile ''/home/user/.ssh/id_rsa''"
proof -
  have v: "validate (sim quiet) lab (default_config ''10.0.0.5'') =
     Inr ((default_config ''10.0.0.5'')\<lparr>ssh_key_path := Some ''/home/user/.ssh/id_rsa''\<rparr>)"
    by code_simp
  from validate_leaves_a_credential [OF v] show ?thesis
    using v by (auto simp: truthy_def default_config_def)
qed

text \<open>A key file that exists and a password, both given: \<^verbatim>\<open>validate()\<close> returns, and both are usable.\<close>

theorem validate_accepts_key_and_password:
  "validate (sim quiet) lab
     ((default_config ''10.0.0.5'')\<lparr>ssh_key_path := Some ''/keys/jetson'', password := Some ''nvidia''\<rparr>) =
     Inr ((default_config ''10.0.0.5'')\<lparr>ssh_key_path := Some ''/keys/jetson'', password := Some ''nvidia''\<rparr>) \<and>
   key_usable (sim quiet) lab
     ((default_config ''10.0.0.5'')\<lparr>ssh_key_path := Some ''/keys/jetson'', password := Some ''nvidia''\<rparr>) \<and>
   password_usable
     ((default_config ''10.0.0.5'')\<lparr>ssh_key_path := Some ''/keys/jetson'', password := Some ''nvidia''\<rparr>)"
  by code_simp

section \<open>Running a command\<close>

lemma then_do_Inl [simp]: "m s = (Inl e, s') \<Longrightarrow> then_do m f s = (Inl e, s')"
  by (simp add: then_do_def)

lemma then_do_Inr [simp]: "m s = (Inr a, s') \<Longrightarrow> then_do m f s = f a s'"
  by (simp add: then_do_def)

lemma try_except_Inl [simp]: "m s = (Inl e, s') \<Longrightarrow> try_except m h s = h e s'"
  by (simp add: try_except_def)

lemma try_except_Inr [simp]: "m s = (Inr a, s') \<Longrightarrow> try_except m h s = (Inr a, s')"
  by (simp add: try_except_def)

lemma execute_command_unfold:
  "execute_command drv cfg cmd tmo st =
     (case connect drv cfg st of
        (Inl e, st1) \<Rightarrow> (Inl e, st1)
      | (Inr client, st1) \<Rightarrow>
          (case exec_command drv client cmd (effective_timeout cfg tmo) (world st1) of
             (Inl e, w2) \<Rightarrow> (Inl (command_failure cmd e), st1\<lparr>world := w2\<rparr>)
           | (Inr ch, w2) \<Rightarrow>
               (case read_result drv cmd ch of
                  Inl e \<Rightarrow> (Inl (command_failure cmd e), st1\<lparr>world := w2\<rparr>)
                | Inr r \<Rightarrow> (Inr r, st1\<lparr>world := w2\<rparr>))))"
  by (simp add: execute_command_def effective_timeout_def then_do_def try_except_def ask_def
      lift_def raise_def Let_def split: prod.splits sum.splits option.splits)

lemma read_result_Inr:
  "read_result drv cmd ch = Inr r \<longleftrightarrow>
     (\<exists>s so se. recv_exit_status ch = Inr s \<and> read_stdout ch = Inr so \<and> read_stderr ch = Inr se \<and>
        utf8_valid so \<and> utf8_valid se \<and>
        r = \<lparr>exit_status = s, stdout = strip so, stderr = strip se, command = cmd, success = (s = 0)\<rparr>)"
  by (auto simp: read_result_def read_text_def split: sum.splits if_splits)




section \<open>Connecting\<close>

lemma open_session_outcome:
  "new_client drv (world st) = (c', w2) \<Longrightarrow>
   ssh_connect drv c' (device_ip cfg) (username cfg) (credential_of cfg) (timeout cfg) w2 = (r, w3) \<Longrightarrow>
   open_session drv cfg st =
     ((case r of None \<Rightarrow> Inr c'
       | Some e' \<Rightarrow> Inl (Exn ConnectionError (''SSH connection failed: '' @ exn_str e'))),
      st\<lparr>ssh_client := Some c', world := w3\<rparr>)"
  by (simp add: open_session_def split: option.splits)

lemma open_session_raises:
  "open_session drv cfg st = (Inl e, st') \<Longrightarrow>
     \<exists>e'. e = Exn ConnectionError (''SSH connection failed: '' @ exn_str e')"
  by (auto simp: open_session_def split: prod.splits option.splits)

lemma open_session_returns:
  "open_session drv cfg st = (Inr c', st') \<Longrightarrow> ssh_client st' = Some c'"
  by (auto simp: open_session_def split: prod.splits option.splits)



section \<open>Listing\<close>

lemma check_never_raises:
  "\<exists>fs st'. check_deployment_files drv cfg n st = (Inr fs, st')"
  by (cases "check_body drv cfg n st" rule: prod.exhaust [case_names p])
     (auto simp: check_deployment_files_def try_except_def ret_def split: sum.splits)

lemma list_loop_append:
  "list_loop drv cfg (pre @ rest) acc st =
     then_do (list_loop drv cfg pre acc) (\<lambda>acc'. list_loop drv cfg rest acc') st"
proof (induction pre arbitrary: acc st)
  case Nil
  then show ?case by (simp add: then_do_def ret_def)
next
  case (Cons d pre)
  show ?case
  proof (cases "strip d \<noteq> []")
    case False
    then show ?thesis using Cons by (simp add: then_do_def)
  next
    case True
    obtain fs st1 where c: "check_deployment_files drv cfg (path_name d) st = (Inr fs, st1)"
      using check_never_raises by blast
    show ?thesis
    proof (cases fs)
      case (Status flags)
      with True c Cons show ?thesis by (simp add: then_do_def)
    next
      case (Failed msg)
      with True c show ?thesis by (simp add: raise_def then_do_def)
    qed
  qed
qed

lemma list_loop_failed:
  "strip d \<noteq> [] \<Longrightarrow> check_deployment_files drv cfg (path_name d) st = (Inr (Failed msg), st') \<Longrightarrow>
     list_loop drv cfg (d # rest) acc st = (Inl (Exn KeyError (sq @ ''has_model'' @ sq)), st')"
  by (simp add: raise_def)

lemma list_deployments_unfold:
  "list_deployments drv cfg st =
     (case execute_command drv cfg (find_cmd cfg) None st of
        (Inl e, st1) \<Rightarrow> (Inr [], st1)
      | (Inr r, st1) \<Rightarrow>
          if \<not> success r then (Inr [], st1)
          else (case list_loop drv cfg (split CHR 0x0A (stdout r)) [] st1 of
                  (Inl e, st2) \<Rightarrow> (Inr [], st2)
                | (Inr ds, st2) \<Rightarrow> (Inr ds, st2)))"
  by (simp add: list_deployments_def list_file_deployments_def try_except_def then_do_def ret_def
      split: prod.splits sum.splits)




section \<open>The retry count\<close>

lemma retries_credential_of: "credential_of (cfg\<lparr>max_retries := r\<rparr>) = credential_of cfg"
  by (simp add: credential_of_def split: option.splits)

lemma retries_open_session: "open_session drv (cfg\<lparr>max_retries := r\<rparr>) = open_session drv cfg"
  by (rule ext) (simp add: open_session_def retries_credential_of)

lemma retries_connect: "connect drv (cfg\<lparr>max_retries := r\<rparr>) = connect drv cfg"
  by (rule ext) (simp add: connect_def retries_open_session split: option.splits prod.splits sum.splits)

lemma retries_execute_command:
  "execute_command drv (cfg\<lparr>max_retries := r\<rparr>) cmd tmo = execute_command drv cfg cmd tmo"
  by (simp add: execute_command_def retries_connect split: option.splits)

lemma retries_transfer_file:
  "transfer_file drv (cfg\<lparr>max_retries := r\<rparr>) l p = transfer_file drv cfg l p"
  by (simp add: transfer_file_def retries_connect retries_execute_command)

lemma retries_remote_path_of: "remote_path_of (cfg\<lparr>max_retries := r\<rparr>) n = remote_path_of cfg n"
  by (simp add: remote_path_of_def)

lemma retries_cleanup:
  "cleanup_deployment_files drv (cfg\<lparr>max_retries := r\<rparr>) n = cleanup_deployment_files drv cfg n"
  by (simp add: cleanup_deployment_files_def retries_execute_command retries_remote_path_of)

lemma retries_readme:
  "create_readme drv (cfg\<lparr>max_retries := r\<rparr>) n u c sg = create_readme drv cfg n u c sg"
  by (rule ext) (simp add: create_readme_def)

lemma retries_build:
  "build_simple_package drv (cfg\<lparr>max_retries := r\<rparr>) b m n u c = build_simple_package drv cfg b m n u c"
  by (simp add: build_simple_package_def stage_package_def retries_readme)

lemma retries_transfer_files:
  "transfer_files drv (cfg\<lparr>max_retries := r\<rparr>) p n = transfer_files drv cfg p n"
  by (simp add: transfer_files_def retries_execute_command retries_transfer_file retries_remote_path_of)

lemma retries_extract_files:
  "extract_files drv (cfg\<lparr>max_retries := r\<rparr>) t n = extract_files drv cfg t n"
  by (simp add: extract_files_def retries_execute_command cong: if_cong)

lemma retries_create:
  "create_deployment drv (cfg\<lparr>max_retries := r\<rparr>) b n u f c = create_deployment drv cfg b n u f c"
  by (simp add: create_deployment_def create_steps_def cleanup_failed_transfer_def retries_cleanup
      retries_build retries_transfer_files retries_extract_files)

lemma retries_check:
  "check_deployment_files drv (cfg\<lparr>max_retries := r\<rparr>) n = check_deployment_files drv cfg n"
  by (simp add: check_deployment_files_def check_body_def probe_flag_def retries_execute_command
      retries_remote_path_of)

lemma retries_list_loop:
  "list_loop drv (cfg\<lparr>max_retries := r\<rparr>) dirs acc st = list_loop drv cfg dirs acc st"
  by (induction dirs arbitrary: acc st) (simp_all add: retries_check then_do_def split: prod.splits sum.splits file_status.splits)

lemma retries_list:
  "list_deployments drv (cfg\<lparr>max_retries := r\<rparr>) = list_deployments drv cfg"
proof -
  have "list_loop drv (cfg\<lparr>max_retries := r\<rparr>) = list_loop drv cfg"
    by (intro ext) (rule retries_list_loop)
  then show ?thesis
    by (simp add: list_deployments_def list_file_deployments_def find_cmd_def retries_execute_command
        cong: if_cong)
qed

text \<open>
  C9. Two configurations that differ only in \<^verbatim>\<open>max_retries\<close> give the same
  \<^verbatim>\<open>connect\<close>, \<^verbatim>\<open>execute_command\<close>, \<^verbatim>\<open>transfer_file\<close>,
  \<^verbatim>\<open>create_deployment\<close>, \<^verbatim>\<open>update_deployment\<close>, \<^verbatim>\<open>delete_deployment\<close>,
  \<^verbatim>\<open>list_deployments\<close> and \<^verbatim>\<open>get_deployment\<close>: the same function of the
  arguments, the state of the manager and the world, so the same requests to the
  device, the same result or exception and the same state afterwards; whatever the
  two retry counts are. (Only \<^verbatim>\<open>validate\<close>, which rejects a negative count, and
  \<^verbatim>\<open>to_dict\<close> read the field.)
\<close>

theorem max_retries_never_consulted:
  "connect drv (cfg\<lparr>max_retries := r\<rparr>) = connect drv cfg \<and>
   execute_command drv (cfg\<lparr>max_retries := r\<rparr>) cmd tmo = execute_command drv cfg cmd tmo \<and>
   transfer_file drv (cfg\<lparr>max_retries := r\<rparr>) local_file remote_file = transfer_file drv cfg local_file remote_file \<and>
   create_deployment drv (cfg\<lparr>max_retries := r\<rparr>) b name model_uri flavor config =
     create_deployment drv cfg b name model_uri flavor config \<and>
   update_deployment drv (cfg\<lparr>max_retries := r\<rparr>) b name model_uri flavor config =
     update_deployment drv cfg b name model_uri flavor config \<and>
   delete_deployment drv (cfg\<lparr>max_retries := r\<rparr>) name = delete_deployment drv cfg name \<and>
   list_deployments drv (cfg\<lparr>max_retries := r\<rparr>) = list_deployments drv cfg \<and>
   get_deployment drv (cfg\<lparr>max_retries := r\<rparr>) name = get_deployment drv cfg name"
  by (simp add: retries_connect retries_execute_command retries_transfer_file retries_create
      update_deployment_def delete_deployment_def get_deployment_def retries_cleanup retries_list retries_check
      cong: option.case_cong if_cong)


text \<open>A retry count of 0 in place of 3: the same deployment, the same listing.\<close>

theorem max_retries_never_consulted_witness:
  "login\<lparr>max_retries := 0\<rparr> \<noteq> login \<and>
   create_deployment (sim quiet) (login\<lparr>max_retries := 0\<rparr>) (new_builder (sim quiet) ''/proj'' device0)
       ''demo'' ''models:/face/1'' None None fresh =
     create_deployment (sim quiet) login (new_builder (sim quiet) ''/proj'' device0)
       ''demo'' ''models:/face/1'' None None fresh \<and>
   list_deployments (sim quiet) (login\<lparr>max_retries := 0\<rparr>) fresh =
     (Inr [], \<lparr>ssh_client = Some 0, world = device0\<lparr>alive := [0], link_budget := 98, clients := 1\<rparr>\<rparr>)"
proof -
  have d: "login\<lparr>max_retries := 0\<rparr> \<noteq> login"
    by (simp add: login_def default_config_def)
  have l: "list_deployments (sim quiet) login fresh =
     (Inr [], \<lparr>ssh_client = Some 0, world = device0\<lparr>alive := [0], link_budget := 98, clients := 1\<rparr>\<rparr>)"
    by code_simp
  note t = max_retries_never_consulted [where drv = "sim quiet" and cfg = login and r = 0]
  from d l t show ?thesis by simp
qed

section \<open>Running programs on the simulated device\<close>

text \<open>
  A closed program is run by rewriting with the definitions, collected in \<open>run\<close>.
  The two congruence rules keep the simplifier out of a continuation until the
  value it is applied to is known.
\<close>

lemma then_do_weak_cong: "m = m' \<Longrightarrow> then_do m f = then_do m' f"
  by simp

lemma try_except_weak_cong: "m = m' \<Longrightarrow> try_except m h = try_except m' h"
  by simp

named_theorems run

lemma sim_requests [run]:
  "expanduser (sim r) = (\<lambda>p. if prefix ''~/'' p then ''/home/user/'' @ drop 2 p else p)"
  "path_exists (sim r) = (\<lambda>p w. p \<in> set (local_files w))"
  "is_file (sim r) = (\<lambda>p w. p \<in> set (local_files w))"
  "is_dir (sim r) = (\<lambda>p w. False)"
  "now_isoformat (sim r) = (\<lambda>w. ''2025-01-01T00:00:00'')"
  "now_strftime (sim r) = (\<lambda>w. ''2025-01-01 00:00:00'')"
  "mkdtemp (sim r) = (\<lambda>pre w. (Inr (''/tmp/'' @ pre @ ''0''), w))"
  "rmtree (sim r) = (\<lambda>d w. (None, w))"
  "copy2 (sim r) = (\<lambda>src dst w. (None, w))"
  "copytree (sim r) = (\<lambda>src dst w. (Inr [], w))"
  "make_tar (sim r) = (\<lambda>d suf w. (Inr (''/tmp/mlflow_jetson_0'' @ suf),
                    w\<lparr>local_files := (''/tmp/mlflow_jetson_0'' @ suf) # local_files w\<rparr>))"
  "getsize (sim r) = (\<lambda>p w. Inr 2048)"
  "unicode_error (sim r) = (\<lambda>b. ''invalid start byte'')"
  "download_artifact (sim r) = (\<lambda>uri d w.
         if uri = [] then (Inl (Exn MlflowException ''no such model''), w)
         else (Inr (d @ ''/model.bin''), w\<lparr>local_files := (d @ ''/model.bin'') # local_files w\<rparr>))"
  "new_client (sim r) = (\<lambda>w. (clients w, w\<lparr>clients := Suc (clients w)\<rparr>))"
  "ssh_connect (sim r) = (\<lambda>c host user cred t w.
         if link_budget w = 0 then (Some (Exn (Other ''socket.timeout'') ''timed out''), w)
         else (None, w\<lparr>alive := c # alive w, link_budget := link_budget w - 1\<rparr>))"
  "exec_command (sim r) = (\<lambda>c cmd t w.
         if link_down w c then (Inl (Exn (Other ''SSHException'') ''SSH session not active''), w)
         else (Inr \<lparr>recv_exit_status = Inr (fst (r cmd)),
                    read_stdout = Inr (fst (snd (r cmd))),
                    read_stderr = Inr (snd (snd (r cmd)))\<rparr>,
               w\<lparr>remote := (if fst (r cmd) = 0 then remote_effect cmd (remote w) else remote w),
                 link_budget := link_budget w - 1\<rparr>))"
  "ssh_close (sim r) = (\<lambda>c w. w\<lparr>alive := removeAll c (alive w)\<rparr>)"
  "scp_put (sim r) = (\<lambda>c l p w.
         if link_down w c then (Some (Exn (Other ''SCPException'') ''SSH session not active''), w)
         else (None, w\<lparr>remote := List.insert p (remote w), link_budget := link_budget w - 1\<rparr>))"
  by (simp_all add: sim_def)

lemma workshop_files [run]:
  "workshop = \<lparr>project_root = ''/proj'',
    face_recognition_files =
      [(''face_features.pkl'', None), (''face_database.json'', None),
       (''model_params.json'', None), (''inference_server_rtsp.py'', None),
       (''model_server.py'', None), (''client.py'', None),
       (''Dockerfile.inference-server'', None),
       (''Dockerfile.model-server'', None),
       (''model_server_requirements.txt'', None),
       (''face_model_v2.pkl'', None), (''label_encoder.pkl'', None),
       (''random_forest_model.pkl'', None), (''amrit_test.jpg'', None)]\<rparr>"
  by code_simp

declare
  sq_def [run] dq_def [run] nl_def [run] ws_encodings_def [run] ws_head_def [run] ws_tail_def [run]
  lstrip.simps [run] rstrip.simps [run] strip_def [run] is_digit_def [run] digit_val_def [run]
  py_int_def [run] cont_def [run] hex_digit_def [run] repr_char_def [run] repr_str_def [run]
  dec_nat.simps [run] repr_int_def [run] path_root_def [run] path_parts_def [run] path_str_def [run]
  path_name_def [run] path_parent_def [run] path_join_def [run] truthy_def [run]
  dict_set_def [run] ret_def [run] raise_def [run] then_do_def [run] try_except_def [run] lift_def [run]
  ask_def [run] ask_unit_def [run] probe_command_def [run] credential_of_def [run] open_session_def [run]
  connect_def [run] read_text_def [run] read_result_def [run] command_failure_def [run]
  execute_command_def [run] transfer_file_def [run] stage_file_def [run] stage_dir_def [run]
  found_source_def [run] copy_model_files_def [run] data_files_def [run] script_files_def [run]
  docker_files_def [run] copy_face_recognition_data_def [run] copy_scripts_def [run]
  copy_docker_files_def [run] create_readme_def [run] get_file_list_def [run]
  create_tar_package_def [run] with_cleanup_def [run] stage_package_def [run]
  build_simple_package_def [run] remote_path_of_def [run] download_model_def [run]
  transfer_files_def [run] extract_files_def [run] cleanup_deployment_files_def [run]
  cleanup_failed_transfer_def [run] create_steps_def [run] create_deployment_def [run]
  update_deployment_def [run] delete_deployment_def [run] default_config_def [run]
  under_def [run] remote_effect_def [run] link_down_def [run] quiet_def [run] device0_def [run]
  login_def [run] fresh_def [run] bad_archive_def [run] first_failure_def [run] Let_def [run] suffix_to_prefix [run]

section \<open>Creating a deployment\<close>

lemma cleanup_deployment_files_outcome:
  "cleanup_deployment_files drv cfg name st =
     (Inr (), snd (execute_command drv cfg (''rm -rf '' @ remote_path_of cfg name) None st))"
  by (simp add: cleanup_deployment_files_def try_except_def then_do_def ret_def
      split: prod.splits sum.splits)

lemma cleanup_failed_transfer_outcome:
  "cleanup_failed_transfer drv cfg name st =
     (Inr (), snd (execute_command drv cfg (''rm -rf '' @ remote_path_of cfg name) None st))"
  by (simp add: cleanup_failed_transfer_def cleanup_deployment_files_outcome try_except_def)

lemma create_steps_failure:
  "first_failure drv cfg b name model_uri config st = Some (e, st1) \<longleftrightarrow>
     create_steps drv cfg b name model_uri flavor config st = (Inl e, st1)"
  by (auto simp: first_failure_def create_steps_def then_do_def ret_def Let_def
      split: prod.splits sum.splits)

lemma create_steps_success:
  "first_failure drv cfg b name model_uri config st = None \<longleftrightarrow>
     (\<exists>r st'. create_steps drv cfg b name model_uri flavor config st = (Inr r, st'))"
  by (auto simp: first_failure_def create_steps_def then_do_def ret_def Let_def
      split: prod.splits sum.splits)

lemma extract_files_path:
  "extract_files drv cfg transfer name st = (Inr x, st') \<Longrightarrow> deployment_path x = remote_deployment_path transfer"
  by (auto simp: extract_files_def try_except_def then_do_def raise_def
      split: prod.splits sum.splits if_splits)

lemma transfer_files_path:
  "transfer_files drv cfg package name st = (Inr t, st') \<Longrightarrow> remote_deployment_path t = remote_path_of cfg name"
  by (auto simp: transfer_files_def try_except_def then_do_def raise_def ret_def Let_def
      split: prod.splits sum.splits if_splits)

lemma create_steps_result:
  "create_steps drv cfg b name model_uri flavor config st = (Inr r, st') \<Longrightarrow>
     dr_name r = name \<and> dr_model_uri r = model_uri \<and> dr_status r = ''files_transferred'' \<and>
     jetson_path r = remote_path_of cfg name"
  by (auto simp: create_steps_def then_do_def ret_def Let_def
      split: prod.splits sum.splits dest!: extract_files_path transfer_files_path)

text \<open>
  C1. When one of the four steps of \<^verbatim>\<open>create_deployment\<close> raises (the download,
  the package build, the transfer or the extraction; \<open>e\<close> is what the first such
  step raises and \<open>st1\<close> the state it leaves), \<^verbatim>\<open>create_deployment\<close> raises an
  \<^verbatim>\<open>MlflowException\<close> whose text is \<^verbatim>\<open>Failed to transfer files to Jetson: \<close>
  followed by the text of \<open>e\<close>, and the state it leaves is the one that
  \<^verbatim>\<open>rm -rf\<close> of the deployment directory, run through \<^verbatim>\<open>execute_command\<close> from
  \<open>st1\<close>, leaves; the cleanup raises nothing, whatever happens to its command.
  A result is returned only when no step raised, and is then the complete record.
  Every exception of \<^verbatim>\<open>create_deployment\<close> is such an \<^verbatim>\<open>MlflowException\<close>,
  raised after a step failed. When the registry fails, the text of \<open>e\<close> is
  \<^verbatim>\<open>Failed to download model from <uri>: \<close> followed by the text of the cause.
\<close>

theorem create_deployment_failure_cleans_up:
  "(\<forall>e st1. first_failure drv cfg b name model_uri config st = Some (e, st1) \<longrightarrow>
       create_deployment drv cfg b name model_uri flavor config st =
         (Inl (Exn MlflowException (''Failed to transfer files to Jetson: '' @ exn_str e)),
          snd (execute_command drv cfg (''rm -rf '' @ remote_path_of cfg name) None st1)) \<and>
       fst (cleanup_failed_transfer drv cfg name st1) = Inr ()) \<and>
   (\<forall>r st'. create_deployment drv cfg b name model_uri flavor config st = (Inr r, st') \<longrightarrow>
       first_failure drv cfg b name model_uri config st = None \<and>
       dr_name r = name \<and> dr_model_uri r = model_uri \<and> dr_status r = ''files_transferred'' \<and>
       jetson_path r = remote_path_of cfg name) \<and>
   (\<forall>e st'. create_deployment drv cfg b name model_uri flavor config st = (Inl e, st') \<longrightarrow>
       exn_kind e = MlflowException \<and> first_failure drv cfg b name model_uri config st \<noteq> None) \<and>
   (\<forall>dir w1 e0 w2.
       mkdtemp drv ''mlflow_simple_'' (world st) = (Inr dir, w1) \<and>
       download_artifact drv model_uri dir w1 = (Inl e0, w2) \<longrightarrow>
       first_failure drv cfg b name model_uri config st =
         Some (Exn Exception (''Failed to download model from '' @ model_uri @ '': '' @ exn_str e0),
               st\<lparr>world := w2\<rparr>))"
proof (intro conjI allI impI)
  fix e st1
  assume "first_failure drv cfg b name model_uri config st = Some (e, st1)"
  then have s: "create_steps drv cfg b name model_uri flavor config st = (Inl e, st1)"
    by (rule create_steps_failure [THEN iffD1])
  show "create_deployment drv cfg b name model_uri flavor config st =
         (Inl (Exn MlflowException (''Failed to transfer files to Jetson: '' @ exn_str e)),
          snd (execute_command drv cfg (''rm -rf '' @ remote_path_of cfg name) None st1))"
    by (simp add: create_deployment_def try_except_def s then_do_def cleanup_failed_transfer_outcome raise_def)
  show "fst (cleanup_failed_transfer drv cfg name st1) = Inr ()"
    by (simp add: cleanup_failed_transfer_outcome)
next
  fix r st'
  assume a: "create_deployment drv cfg b name model_uri flavor config st = (Inr r, st')"
  then have s: "create_steps drv cfg b name model_uri flavor config st = (Inr r, st')"
    by (auto simp: create_deployment_def try_except_def then_do_def raise_def cleanup_failed_transfer_outcome
        split: prod.splits sum.splits)
  then show "first_failure drv cfg b name model_uri config st = None"
    using create_steps_success by blast
  from s show "dr_name r = name" "dr_model_uri r = model_uri" "dr_status r = ''files_transferred''"
    "jetson_path r = remote_path_of cfg name"
    using create_steps_result by blast+
next
  fix e st'
  assume a: "create_deployment drv cfg b name model_uri flavor config st = (Inl e, st')"
  then obtain e0 st1 where s: "create_steps drv cfg b name model_uri flavor config st = (Inl e0, st1)"
    and e: "e = Exn MlflowException (''Failed to transfer files to Jetson: '' @ exn_str e0)"
    by (auto simp: create_deployment_def try_except_def then_do_def raise_def cleanup_failed_transfer_outcome
        split: prod.splits sum.splits)
  from e show "exn_kind e = MlflowException" by simp
  from s have "first_failure drv cfg b name model_uri config st = Some (e0, st1)"
    by (rule create_steps_failure [THEN iffD2])
  then show "first_failure drv cfg b name model_uri config st \<noteq> None" by simp
next
  fix dir w1 e0 w2
  assume "mkdtemp drv ''mlflow_simple_'' (world st) = (Inr dir, w1) \<and>
       download_artifact drv model_uri dir w1 = (Inl e0, w2)"
  then show "first_failure drv cfg b name model_uri config st =
         Some (Exn Exception (''Failed to download model from '' @ model_uri @ '': '' @ exn_str e0),
               st\<lparr>world := w2\<rparr>)"
    by (simp add: first_failure_def download_model_def try_except_def then_do_def ask_def raise_def)
qed

text \<open>
  The archive arrives and does not unpack: the directory and the archive in it are
  removed from the device, and the failure names the extraction and what
  \<^verbatim>\<open>tar\<close> printed.
\<close>

theorem create_deployment_failure_cleans_up_witness:
  "create_deployment (sim bad_archive) login workshop ''demo'' ''models:/face/1'' None None fresh =
     (Inl (Exn MlflowException
        ''Failed to transfer files to Jetson: Failed to extract files: Extraction failed: tar: Unexpected EOF in archive''),
      \<lparr>ssh_client = Some 0,
        world = \<lparr>remote = [], alive = [0], link_budget = 90, clients = 1,
                 local_files = [''/tmp/mlflow_jetson_0_demo_files.tar.gz'', ''/tmp/mlflow_simple_0/model.bin'']\<rparr>\<rparr>)"
proof -
  have f: "first_failure (sim bad_archive) login workshop ''demo'' ''models:/face/1'' None fresh =
    Some (Exn Exception ''Failed to extract files: Extraction failed: tar: Unexpected EOF in archive'',
      \<lparr>ssh_client = Some 0,
        world = \<lparr>remote = [''/home/newcastleuni/mlflow_deployments/demo/files_package.tar.gz'',
                           ''/home/newcastleuni/mlflow_deployments/demo''],
                 alive = [0], link_budget = 92, clients = 1,
                 local_files = [''/tmp/mlflow_jetson_0_demo_files.tar.gz'', ''/tmp/mlflow_simple_0/model.bin'']\<rparr>\<rparr>)"
    by (simp add: run del: then_do_Inl then_do_Inr try_except_Inl try_except_Inr
        cong: then_do_weak_cong try_except_weak_cong prod.case_cong_weak sum.case_cong_weak)
  have c: "snd (execute_command (sim bad_archive) login (''rm -rf '' @ remote_path_of login ''demo'') None
      \<lparr>ssh_client = Some 0,
        world = \<lparr>remote = [''/home/newcastleuni/mlflow_deployments/demo/files_package.tar.gz'',
                           ''/home/newcastleuni/mlflow_deployments/demo''],
                 alive = [0], link_budget = 92, clients = 1,
                 local_files = [''/tmp/mlflow_jetson_0_demo_files.tar.gz'', ''/tmp/mlflow_simple_0/model.bin'']\<rparr>\<rparr>) =
      \<lparr>ssh_client = Some 0,
        world = \<lparr>remote = [], alive = [0], link_budget = 90, clients = 1,
                 local_files = [''/tmp/mlflow_jetson_0_demo_files.tar.gz'', ''/tmp/mlflow_simple_0/model.bin'']\<rparr>\<rparr>"
    by (simp add: run del: then_do_Inl then_do_Inr try_except_Inl try_except_Inr
        cong: then_do_weak_cong try_except_weak_cong prod.case_cong_weak sum.case_cong_weak)
  from create_deployment_failure_cleans_up [where flavor = None, THEN conjunct1, rule_format, OF f] c
  show ?thesis by simp
qed

section \<open>Deleting a deployment\<close>

lemma open_session_files:
  assumes "remote_shell drv files sem"
  shows "files (world (snd (open_session drv cfg st))) = files (world st)"
proof -
  obtain c w1 where n: "new_client drv (world st) = (c, w1)" by (cases "new_client drv (world st)")
  obtain r w2 where k: "ssh_connect drv c (device_ip cfg) (username cfg) (credential_of cfg) (timeout cfg) w1 = (r, w2)"
    by (cases "ssh_connect drv c (device_ip cfg) (username cfg) (credential_of cfg) (timeout cfg) w1")
  from assms have "files w1 = files (world st)"
    using n unfolding remote_shell_def by (metis snd_conv)
  moreover from assms have "files w2 = files w1"
    using k unfolding remote_shell_def by (metis snd_conv)
  ultimately show ?thesis
    using n k by (simp add: open_session_def split: option.splits)
qed

lemma connect_files:
  assumes "remote_shell drv files sem"
  shows "files (world (snd (connect drv cfg st))) = files (world st)"
proof (cases "ssh_client st")
  case None
  then show ?thesis using open_session_files [OF assms] by (simp add: connect_def)
next
  case (Some c)
  obtain r w1 where p: "exec_command drv c probe_command 5 (world st) = (r, w1)"
    by (cases "exec_command drv c probe_command 5 (world st)")
  from assms have e: "files w1 = (if isl r then files (world st) else sem probe_command (files (world st)))"
    using p unfolding remote_shell_def by (metis fst_conv snd_conv)
  from assms have q: "sem probe_command (files (world st)) = files (world st)"
    unfolding remote_shell_def by blast
  from e q have w1: "files w1 = files (world st)" by simp
  show ?thesis
  proof (cases r)
    case (Inr ch)
    with Some p w1 show ?thesis by (simp add: connect_def)
  next
    case (Inl e)
    from assms have "files (ssh_close drv c w1) = files w1"
      unfolding remote_shell_def by blast
    with Some p Inl w1 open_session_files [OF assms, of cfg "st\<lparr>ssh_client := None, world := ssh_close drv c w1\<rparr>"]
    show ?thesis by (simp add: connect_def)
  qed
qed

lemma execute_command_files:
  assumes "remote_shell drv files sem"
  shows "files (world (snd (execute_command drv cfg cmd tmo st))) =
     (case connect drv cfg st of
        (Inl e, s) \<Rightarrow> files (world st)
      | (Inr c, s) \<Rightarrow>
          (case exec_command drv c cmd (effective_timeout cfg tmo) (world s) of
             (Inl e, w) \<Rightarrow> files (world st)
           | (Inr ch, w) \<Rightarrow> sem cmd (files (world st))))"
proof -
  obtain r s where c: "connect drv cfg st = (r, s)" by (cases "connect drv cfg st")
  from connect_files [OF assms, of cfg st] c have s: "files (world s) = files (world st)" by simp
  show ?thesis
  proof (cases r)
    case (Inl e)
    with c s show ?thesis by (simp add: execute_command_unfold)
  next
    case (Inr cl)
    obtain x w where e: "exec_command drv cl cmd (effective_timeout cfg tmo) (world s) = (x, w)"
      by (cases "exec_command drv cl cmd (effective_timeout cfg tmo) (world s)")
    from assms e have "files w = (if isl x then files (world s) else sem cmd (files (world s)))"
      unfolding remote_shell_def by (metis fst_conv snd_conv)
    with c s Inr e show ?thesis
      by (cases x) (simp_all add: execute_command_unfold split: sum.splits)
  qed
qed

lemma execute_command_files_cases:
  assumes "remote_shell drv files sem"
  shows "files (world (snd (execute_command drv cfg cmd tmo st))) = files (world st) \<or>
         files (world (snd (execute_command drv cfg cmd tmo st))) = sem cmd (files (world st))"
  by (simp add: execute_command_files [OF assms] split: prod.splits sum.splits)

lemma delete_deployment_outcome:
  "delete_deployment drv cfg name st = (Inr (), snd (execute_command drv cfg (rm_rf cfg name) None st))"
  by (simp add: delete_deployment_def cleanup_deployment_files_outcome try_except_def rm_rf_def)


declare rm_rf_def [run] sim_sem_def [run] stocked_def [run]

lemma sim_remote_shell: "remote_shell (sim r) remote (sim_sem r)"
  by (simp add: remote_shell_def sim_requests sim_sem_def remote_effect_def probe_command_def dq_def
      split: prod.splits)

lemma sim_rm_rf_idempotent: "sim_sem r (rm_rf cfg name) (sim_sem r (rm_rf cfg name) fs) = sim_sem r (rm_rf cfg name) fs"
  by (simp add: sim_sem_def remote_effect_def rm_rf_def)


section \<open>Updating a deployment\<close>

lemma keeps_ret: "keeps files (ret a)"
  by (simp add: keeps_def ret_def)

lemma keeps_raise: "keeps files (raise e)"
  by (simp add: keeps_def raise_def)

lemma keeps_then_do: "keeps files m \<Longrightarrow> (\<And>a. keeps files (f a)) \<Longrightarrow> keeps files (then_do m f)"
  unfolding keeps_def then_do_def
  by (auto split: prod.splits sum.splits) (metis snd_conv)+

lemma keeps_try_except: "keeps files m \<Longrightarrow> (\<And>e. keeps files (h e)) \<Longrightarrow> keeps files (try_except m h)"
  unfolding keeps_def try_except_def
  by (auto split: prod.splits sum.splits) (metis snd_conv)+

lemma keeps_with_cleanup: "keeps files m \<Longrightarrow> keeps files c \<Longrightarrow> keeps files (with_cleanup m c)"
  unfolding keeps_def with_cleanup_def
  by (auto split: prod.splits sum.splits) (metis snd_conv)+

lemma keeps_ask: "(\<And>w. files (snd (f w)) = files w) \<Longrightarrow> keeps files (ask f)"
  unfolding keeps_def ask_def
  by (auto split: prod.splits) (metis snd_conv)

lemma keeps_ask_unit: "(\<And>w. files (snd (f w)) = files w) \<Longrightarrow> keeps files (ask_unit f)"
  unfolding keeps_def ask_unit_def
  by (auto split: prod.splits option.splits) (metis snd_conv)+

lemma keeps_I: "(\<And>st. files (world (snd (m st))) = files (world st)) \<Longrightarrow> keeps files m"
  by (simp add: keeps_def)

lemma keeps_D: "keeps files m \<Longrightarrow> files (world (snd (m st))) = files (world st)"
  by (simp add: keeps_def)

lemma keeps_copy2:
  "remote_shell drv files sem \<Longrightarrow> keeps files (ask_unit (copy2 drv s d) :: (('c, 'w) state, unit) prog)"
  by (rule keeps_ask_unit) (simp add: remote_shell_def)

lemma keeps_download_model:
  assumes "remote_shell drv files sem"
  shows "keeps files (download_model drv model_uri)"
  unfolding download_model_def using assms
  by (intro keeps_try_except keeps_then_do keeps_ask keeps_ret keeps_raise) (simp_all add: remote_shell_def)

lemma keeps_copy_model_files:
  assumes "remote_shell drv files sem"
  shows "keeps files (copy_model_files drv model_path package_dir sg)"
proof (rule keeps_I)
  fix st :: "('a, 'b) state"
  have a: "keeps files (then_do (ask_unit (copy2 drv model_path (path_join (path_join package_dir ''models'') (path_name model_path))))
             (\<lambda>_. ret (stage_file (''models/'' @ path_name model_path) (Copy model_path) (stage_dir ''models'' sg))) :: (('a, 'b) state, staged) prog)"
    by (intro keeps_then_do keeps_copy2 [OF assms] keeps_ret)
  have b: "keeps files (then_do (ask (copytree drv model_path (path_join (path_join package_dir ''models'') ''mlflow_model'')))
             (\<lambda>rels. ret (foldl (\<lambda>g rel. stage_file (''models/mlflow_model/'' @ rel)
                                     (Copy (path_join model_path rel)) g)
                            (stage_dir ''models/mlflow_model'' (stage_dir ''models'' sg)) rels)) :: (('a, 'b) state, staged) prog)"
    using assms by (intro keeps_then_do keeps_ask keeps_ret) (simp add: remote_shell_def)
  show "files (world (snd (copy_model_files drv model_path package_dir sg st))) = files (world st)"
    using keeps_D [OF a, of st] keeps_D [OF b, of st]
    by (simp add: copy_model_files_def Let_def ret_def)
qed

lemma keeps_copy_data_loop:
  assumes "remote_shell drv files sem"
  shows "keeps files (copy_data_loop drv b dest_dir names sg)"
proof (induction names arbitrary: sg)
  case Nil
  show ?case by (rule keeps_I) (simp add: ret_def)
next
  case (Cons file_name rest)
  show ?case
  proof (rule keeps_I)
    fix st :: "('a, 'b) state"
    show "files (world (snd (copy_data_loop drv b dest_dir (file_name # rest) sg st))) = files (world st)"
    proof (cases "found_source drv b file_name (world st)")
      case None
      then show ?thesis using keeps_D [OF Cons.IH] by simp
    next
      case (Some source_path)
      have "keeps files (then_do (ask_unit (copy2 drv source_path (path_join dest_dir file_name)))
            (\<lambda>_. copy_data_loop drv b dest_dir rest
                    (stage_file (''data/'' @ file_name) (Copy source_path) sg)) :: (('a, 'b) state, staged) prog)"
        by (intro keeps_then_do keeps_copy2 [OF assms] Cons.IH)
      from keeps_D [OF this, of st] Some show ?thesis by simp
    qed
  qed
qed

lemma keeps_copy_scripts_loop:
  assumes "remote_shell drv files sem"
  shows "keeps files (copy_scripts_loop drv b dest_dir names sg)"
proof (induction names arbitrary: sg)
  case Nil
  show ?case by (rule keeps_I) (simp add: ret_def)
next
  case (Cons file_name rest)
  show ?case
  proof (rule keeps_I)
    fix st :: "('a, 'b) state"
    show "files (world (snd (copy_scripts_loop drv b dest_dir (file_name # rest) sg st))) = files (world st)"
    proof (cases "found_source drv b file_name (world st)")
      case None
      then show ?thesis using keeps_D [OF Cons.IH] by simp
    next
      case (Some source_path)
      have "keeps files (then_do (ask_unit (copy2 drv source_path (path_join dest_dir file_name)))
            (\<lambda>_. copy_scripts_loop drv b dest_dir rest
                    (stage_file (''scripts/'' @ file_name) (ExecCopy source_path) sg)) :: (('a, 'b) state, staged) prog)"
        by (intro keeps_then_do keeps_copy2 [OF assms] Cons.IH)
      from keeps_D [OF this, of st] Some show ?thesis by simp
    qed
  qed
qed

lemma keeps_copy_docker_loop:
  assumes "remote_shell drv files sem"
  shows "keeps files (copy_docker_loop drv b dest_dir names sg)"
proof (induction names arbitrary: sg)
  case Nil
  show ?case by (rule keeps_I) (simp add: ret_def)
next
  case (Cons file_name rest)
  show ?case
  proof (rule keeps_I)
    fix st :: "('a, 'b) state"
    show "files (world (snd (copy_docker_loop drv b dest_dir (file_name # rest) sg st))) = files (world st)"
    proof (cases "found_source drv b file_name (world st)")
      case None
      then show ?thesis using keeps_D [OF Cons.IH] by simp
    next
      case (Some source_path)
      have "keeps files (then_do (ask_unit (copy2 drv source_path (path_join dest_dir file_name)))
            (\<lambda>_. copy_docker_loop drv b dest_dir rest
                    (stage_file (''docker/'' @ file_name) (Copy source_path) (stage_dir ''docker'' sg))) :: (('a, 'b) state, staged) prog)"
        by (intro keeps_then_do keeps_copy2 [OF assms] Cons.IH)
      from keeps_D [OF this, of st] Some show ?thesis by simp
    qed
  qed
qed

lemma keeps_create_readme: "keeps files (create_readme drv cfg deployment_name model_uri config sg)"
  by (rule keeps_I) (simp add: create_readme_def ret_def)

lemma keeps_stage_package:
  assumes "remote_shell drv files sem"
  shows "keeps files (stage_package drv cfg b model_path deployment_name model_uri config package_dir)"
  unfolding stage_package_def copy_face_recognition_data_def copy_scripts_def copy_docker_files_def
  by (intro keeps_then_do keeps_copy_model_files [OF assms] keeps_copy_data_loop [OF assms]
      keeps_copy_scripts_loop [OF assms] keeps_copy_docker_loop [OF assms] keeps_create_readme)

lemma keeps_create_tar_package:
  assumes "remote_shell drv files sem"
  shows "keeps files (create_tar_package drv package_dir deployment_name)"
proof -
  have t: "\<And>tar_path. keeps files (\<lambda>st :: ('a, 'b) state.
             if \<not> path_exists drv tar_path (world st)
             then raise (Exn Exception (''Package file was not created: '' @ tar_path)) st
             else ret tar_path st :: (exn + string) \<times> ('a, 'b) state)"
    by (rule keeps_I) (simp add: raise_def ret_def)
  show ?thesis
    unfolding create_tar_package_def using assms
    by (intro keeps_try_except keeps_then_do keeps_ask keeps_raise t) (simp add: remote_shell_def)
qed

lemma keeps_build_simple_package:
  assumes "remote_shell drv files sem"
  shows "keeps files (build_simple_package drv cfg b model_path deployment_name model_uri config)"
proof -
  have g: "\<And>tar_path sg. keeps files (\<lambda>st :: ('a, 'b) state.
            case getsize drv tar_path (world st) of
              Inl e \<Rightarrow> (Inl e, st)
            | Inr n \<Rightarrow>
                (Inr \<lparr>package_path = tar_path, pkg_deployment_name = deployment_name,
                      pkg_created_at = now_isoformat drv (world st),
                      size_mb = of_int n / (1024 * 1024),
                      included_files = get_file_list sg\<rparr>, st))"
    by (rule keeps_I) (simp split: sum.splits)
  show ?thesis
    unfolding build_simple_package_def Let_def using assms
    by (intro keeps_then_do keeps_with_cleanup keeps_ask keeps_ask_unit keeps_stage_package [OF assms]
        keeps_create_tar_package [OF assms] g) (simp_all add: remote_shell_def)
qed

lemma execute_command_issued:
  assumes "remote_shell drv files sem"
  shows "files (world (snd (execute_command drv cfg cmd None st))) =
     (if issued drv cfg cmd st then sem cmd (files (world st)) else files (world st))"
  by (simp add: execute_command_files [OF assms] issued_def split: prod.splits sum.splits)

lemma update_deployment_unfold:
  "update_deployment drv cfg b name model_uri flavor config st =
     (case create_deployment drv cfg b name model_uri flavor config (snd (delete_deployment drv cfg name st)) of
        (Inl e, s) \<Rightarrow> (Inl (Exn MlflowException (''Failed to update deployment: '' @ exn_str e)), s)
      | (Inr r, s) \<Rightarrow> (Inr r, s))"
  by (simp add: update_deployment_def try_except_def then_do_def cleanup_deployment_files_outcome
      delete_deployment_outcome rm_rf_def raise_def split: prod.splits sum.splits)

lemma delete_then_create_unfold:
  "delete_then_create drv cfg b name model_uri flavor config st =
     create_deployment drv cfg b name model_uri flavor config (snd (delete_deployment drv cfg name st))"
  by (simp add: delete_then_create_def then_do_def delete_deployment_outcome)

lemma create_deployment_unfold:
  "create_deployment drv cfg b name model_uri flavor config st =
     (case first_failure drv cfg b name model_uri config st of
        Some (e, st1) \<Rightarrow>
          (Inl (Exn MlflowException (''Failed to transfer files to Jetson: '' @ exn_str e)),
           snd (execute_command drv cfg (rm_rf cfg name) None st1))
      | None \<Rightarrow> create_steps drv cfg b name model_uri flavor config st)"
proof (cases "first_failure drv cfg b name model_uri config st")
  case None
  then obtain r st' where "create_steps drv cfg b name model_uri flavor config st = (Inr r, st')"
    using create_steps_success [THEN iffD1] by blast
  with None show ?thesis by (simp add: create_deployment_def try_except_def)
next
  case (Some p)
  obtain e st1 where p: "p = (e, st1)" by (cases p)
  with Some have "create_steps drv cfg b name model_uri flavor config st = (Inl e, st1)"
    using create_steps_failure [THEN iffD1] by blast
  with Some p show ?thesis
    by (simp add: create_deployment_def try_except_def then_do_def cleanup_failed_transfer_outcome
        raise_def rm_rf_def)
qed

lemma stops_before_transfer_files:
  assumes sh: "remote_shell drv files sem"
    and f: "first_failure drv cfg b name model_uri config st = Some (e, st1)"
    and s: "stops_before_transfer drv cfg b name model_uri config st"
  shows "files (world st1) = files (world st)"
proof -
  obtain r1 s1 where d: "download_model drv model_uri st = (r1, s1)" by (cases "download_model drv model_uri st")
  from keeps_D [OF keeps_download_model [OF sh], of model_uri st] d
  have k1: "files (world s1) = files (world st)" by simp
  show ?thesis
  proof (cases r1)
    case (Inl e1)
    with d f have "st1 = s1" by (simp add: first_failure_def)
    with k1 show ?thesis by simp
  next
    case (Inr model)
    let ?c = "case config of None \<Rightarrow> [] | Some d \<Rightarrow> d"
    obtain r2 s2 where bd: "build_simple_package drv cfg b (local_path model) name model_uri ?c s1 = (r2, s2)"
      by (cases "build_simple_package drv cfg b (local_path model) name model_uri ?c s1")
    from keeps_D [OF keeps_build_simple_package [OF sh], of cfg b "local_path model" name model_uri ?c s1] bd
    have k2: "files (world s2) = files (world s1)" by simp
    from s d Inr bd obtain e2 where "r2 = Inl e2"
      by (cases r2) (simp_all add: stops_before_transfer_def)
    with d Inr bd f have "st1 = s2" by (simp add: first_failure_def)
    with k1 k2 show ?thesis by simp
  qed
qed


declare on_link_def [run] delete_then_create_def [run]

lemma sim_rm_rf_absent:
  "fst (r (rm_rf cfg name)) = 0 \<Longrightarrow> absent (remote_path_of cfg name) (sim_sem r (rm_rf cfg name) fs)"
  by (simp add: absent_def sim_sem_def remote_effect_def rm_rf_def)



end
